theory Spec2Isabelle
  imports Complex_Main
begin

section \<open>Tensors, configuration and errors\<close>

text \<open>
  The decode loops of \<^verbatim>\<open>MaskGitTransformer\<close> (src/muse/modeling_transformer.py) work on
  tensors. A tensor is a nested list: a token grid is batch x sequence, logits are
  batch x sequence x channel, encoder hidden states are batch x text length x dimension.
  Token ids are Python/torch integers (\<open>int\<close>); floating-point entries are modelled as
  \<open>real\<close>, so rounding is abstracted away.
\<close>

type_synonym ids = "int list list"
type_synonym logits = "real list list list"
type_synonym states = "real list list list"

datatype error = AttributeError | TypeError | ValueError | RuntimeError | UnboundLocalError

text \<open>The fields of \<^verbatim>\<open>self.config\<close> that the decode loops read.\<close>

record config =
  vocab_size :: int
  codebook_size :: nat
  num_vq_tokens :: nat
  add_cross_attention :: bool

text \<open>\<^verbatim>\<open>self.register_to_config(mask_token_id=vocab_size - 1)\<close>\<close>

definition mask_token_id :: "config \<Rightarrow> int" where
  "mask_token_id cfg = vocab_size cfg - 1"

section \<open>Guidance mixing\<close>

text \<open>
  \<^verbatim>\<open>logits = uncond_logits + guidance_scale * (cond_logits - uncond_logits)\<close>
  (lines 602 and 672), elementwise over the three tensor dimensions.
\<close>

definition mix_row :: "real \<Rightarrow> real list \<Rightarrow> real list \<Rightarrow> real list" where
  "mix_row scale cond uncond = map2 (\<lambda>u c. u + scale * (c - u)) uncond cond"

definition guidance_mix :: "real \<Rightarrow> logits \<Rightarrow> logits \<Rightarrow> logits" where
  "guidance_mix scale cond_logits uncond_logits =
     map2 (\<lambda>u c. map2 (\<lambda>ur cr. mix_row scale cr ur) u c) uncond_logits cond_logits"

text \<open>Two tensors have the same shape.\<close>

definition same_shape :: "logits \<Rightarrow> logits \<Rightarrow> bool" where
  "same_shape a b =
     list_all2 (\<lambda>x y. list_all2 (\<lambda>p q. length p = length q) x y) a b"

section \<open>External collaborators\<close>

text \<open>
  The transformer stack (embedding, layers, MLM head) is numeric plumbing, and the
  functions imported from \<^verbatim>\<open>.sampling\<close> (\<^verbatim>\<open>top_k\<close>, \<^verbatim>\<open>gumbel_sample\<close>,
  \<^verbatim>\<open>mask_by_random_topk\<close>) and from torch (\<^verbatim>\<open>Tensor.topk\<close>, \<^verbatim>\<open>torch.multinomial\<close>) are
  not part of these sources. They are parameters of the model. The type \<open>'g\<close> is the
  state of torch's ambient (global) random number generator, which every sampling call
  reads and advances.
\<close>

record 'g deps =
  layers :: "ids \<Rightarrow> states option \<Rightarrow> logits"
  top_k :: "logits \<Rightarrow> real \<Rightarrow> logits"
  gumbel_sample :: "logits \<Rightarrow> real \<Rightarrow> 'g \<Rightarrow> ids \<times> 'g"
  topk_indices :: "real list \<Rightarrow> nat \<Rightarrow> nat list"
  multinomial :: "real list list \<Rightarrow> 'g \<Rightarrow> int list \<times> 'g"
  mask_by_random_topk :: "int list \<Rightarrow> real list list \<Rightarrow> real \<Rightarrow> 'g \<Rightarrow> bool list list \<times> 'g"

text \<open>
  The caller's \<^verbatim>\<open>class_ids\<close> tensor is passed by reference and updated in place, so it
  lives in a store of one-dimensional integer tensors.
\<close>

type_synonym addr = nat
type_synonym heap = "addr \<Rightarrow> int list"

section \<open>Tensor operations\<close>

text \<open>\<^verbatim>\<open>logits[..., : self.config.codebook_size]\<close>\<close>

definition truncate_channels :: "nat \<Rightarrow> logits \<Rightarrow> logits" where
  "truncate_channels n l = map (map (take n)) l"

text \<open>\<^verbatim>\<open>torch.zeros_like(encoder_hidden_states)\<close>\<close>

definition zeros_like :: "states \<Rightarrow> states" where
  "zeros_like e = map (map (map (\<lambda>_. 0))) e"

text \<open>
  \<^verbatim>\<open>cond_logits, uncond_logits = t.chunk(2)\<close>: chunks of size ceil(n / 2) along the batch
  dimension. A tensor with a single row gives a single chunk, and the unpacking raises
  ValueError; an empty tensor gives two empty chunks.
\<close>

definition chunk2 :: "logits \<Rightarrow> error + logits \<times> logits" where
  "chunk2 t =
     (if length t = 1 then Inl ValueError
      else Inr (take ((length t + 1) div 2) t, drop ((length t + 1) div 2) t))"

text \<open>\<^verbatim>\<open>torch.cat([class_ids[:, None], input_ids], dim=1)\<close>. Both loops build the grid
  with \<^verbatim>\<open>len(class_ids)\<close> rows, so the two arguments always have as many rows.\<close>

definition prepend_class :: "int list \<Rightarrow> ids \<Rightarrow> ids" where
  "prepend_class class_ids x = map2 (#) class_ids x"

text \<open>\<^verbatim>\<open>t.softmax(dim=-1)\<close> on one channel vector.\<close>

definition softmax :: "real list \<Rightarrow> real list" where
  "softmax xs = map (\<lambda>x. exp x / sum_list (map exp xs)) xs"

text \<open>\<^verbatim>\<open>probs.gather(2, ids[..., None])\<close> with the trailing axis squeezed. The ids come
  from the sampler and are channel indices; a gather outside the channel range, which
  torch rejects, is not modelled.\<close>

definition gather_probs :: "logits \<Rightarrow> ids \<Rightarrow> real list list" where
  "gather_probs probs x = map2 (map2 (\<lambda>p i. p ! nat i)) probs x"

text \<open>\<^verbatim>\<open>torch.where(cond, a, b)\<close> on equally shaped two-dimensional tensors.\<close>

definition where_row :: "bool list \<Rightarrow> 'a list \<Rightarrow> 'a list \<Rightarrow> 'a list" where
  "where_row c a b = map (\<lambda>(m, x, y). if m then x else y) (zip c (zip a b))"

definition where2 :: "bool list list \<Rightarrow> 'a list list \<Rightarrow> 'a list list \<Rightarrow> 'a list list" where
  "where2 c a b = map (\<lambda>(m, x, y). where_row m x y) (zip c (zip a b))"

text \<open>\<^verbatim>\<open>input_ids == mask_token_id\<close>\<close>

definition eq_mask :: "config \<Rightarrow> ids \<Rightarrow> bool list list" where
  "eq_mask cfg x = map (map (\<lambda>t. t = mask_token_id cfg)) x"

text \<open>\<^verbatim>\<open>row.scatter(indices, value)\<close> along the sequence dimension of one row. The
  indices are those returned by \<^verbatim>\<open>topk\<close> on a row of the same length.\<close>

definition scatter_row :: "int list \<Rightarrow> nat list \<Rightarrow> int \<Rightarrow> int list" where
  "scatter_row row idxs v = fold (\<lambda>i r. r[i := v]) idxs row"

text \<open>Python's \<^verbatim>\<open>int(x)\<close> on a float: truncation towards zero.\<close>

definition py_int :: "real \<Rightarrow> int" where
  "py_int r = (if 0 \<le> r then \<lfloor>r\<rfloor> else \<lceil>r\<rceil>)"

text \<open>\<^verbatim>\<open>torch.linspace(0, 1, n)\<close> and \<^verbatim>\<open>reversed(range(n))\<close>.\<close>

definition linspace01 :: "nat \<Rightarrow> real list" where
  "linspace01 n = map (\<lambda>i. if n = 1 then 0 else real i / real (n - 1)) [0..<n]"

definition reversed_range :: "nat \<Rightarrow> int list" where
  "reversed_range n = rev (map int [0..<n])"

text \<open>\<^verbatim>\<open>torch.finfo(torch.float32).max\<close>\<close>

definition finfo_max :: real where
  "finfo_max = (2 - 1 / 2 ^ 23) * 2 ^ 127"

text \<open>A \<^verbatim>\<open>for\<close> loop whose body may raise: it stops at the first error.\<close>

fun for_loop ::
  "('i \<Rightarrow> 's \<Rightarrow> 'g \<Rightarrow> (error + 's) \<times> 'g) \<Rightarrow> 'i list \<Rightarrow> 's \<Rightarrow> 'g \<Rightarrow> (error + 's) \<times> 'g" where
  "for_loop body [] st g = (Inr st, g)"
| "for_loop body (i # is) st g =
     (case body i st g of
        (Inl e, g') \<Rightarrow> (Inl e, g')
      | (Inr st', g') \<Rightarrow> for_loop body is st' g')"

section \<open>The forward pass and classifier-free guidance\<close>

text \<open>
  \<^verbatim>\<open>MaskGitTransformer.forward\<close> (lines 493-549) without labels. It raises ValueError when
  cross attention is configured and no encoder states are given; \<^verbatim>\<open>self.embed(None)\<close>
  fails on \<^verbatim>\<open>input_ids.shape\<close>.
\<close>

definition forward :: "config \<Rightarrow> 'g deps \<Rightarrow> ids option \<Rightarrow> states option \<Rightarrow> error + logits" where
  "forward cfg d input_ids encoder_hidden_states =
     (if add_cross_attention cfg \<and> encoder_hidden_states = None then Inl ValueError
      else case input_ids of
             None \<Rightarrow> Inl AttributeError
           | Some x \<Rightarrow> Inr (layers d x encoder_hidden_states))"

text \<open>
  The logit computation of one round, lines 594-605 of \<^verbatim>\<open>generate\<close> and, word for word,
  lines 664-675 of \<^verbatim>\<open>generate2\<close>. \<^verbatim>\<open>torch.cat([input_ids] * 2)\<close> raises TypeError on None.
\<close>

definition guided_logits ::
  "config \<Rightarrow> 'g deps \<Rightarrow> ids option \<Rightarrow> states option \<Rightarrow> real \<Rightarrow> error + logits" where
  "guided_logits cfg d input_ids encoder_hidden_states guidance_scale =
     (if encoder_hidden_states \<noteq> None \<and> guidance_scale > 0 then
        (case (input_ids, encoder_hidden_states) of
           (Some x, Some enc) \<Rightarrow>
             (case forward cfg d (Some (x @ x)) (Some (enc @ zeros_like enc)) of
                Inl e \<Rightarrow> Inl e
              | Inr out \<Rightarrow>
                  (case chunk2 out of
                     Inl e \<Rightarrow> Inl e
                   | Inr (cond_logits, uncond_logits) \<Rightarrow>
                       Inr (guidance_mix guidance_scale
                              (truncate_channels (codebook_size cfg) cond_logits)
                              (truncate_channels (codebook_size cfg) uncond_logits))))
         | _ \<Rightarrow> Inl TypeError)
      else
        (case forward cfg d input_ids encoder_hidden_states of
           Inl e \<Rightarrow> Inl e
         | Inr out \<Rightarrow> Inr (truncate_channels (codebook_size cfg) out)))"

section \<open>Set-up shared by both decode loops\<close>

text \<open>
  \<^verbatim>\<open>batch_size = len(class_ids) if class_ids is not None else encoder_hidden_states.shape[0]\<close>;
  with neither given, \<^verbatim>\<open>None.shape\<close> raises AttributeError.
\<close>

definition batch_size_of :: "heap \<Rightarrow> addr option \<Rightarrow> states option \<Rightarrow> error + nat" where
  "batch_size_of h class_ids encoder_hidden_states =
     (case class_ids of
        Some a \<Rightarrow> Inr (length (h a))
      | None \<Rightarrow> (case encoder_hidden_states of
                   Some e \<Rightarrow> Inr (length e)
                 | None \<Rightarrow> Inl AttributeError))"

text \<open>
  \<^verbatim>\<open>class_ids\<close> is a \<^verbatim>\<open>torch.LongTensor\<close>: its elements are 64-bit signed integers, and
  addition on them wraps around in two's complement.
\<close>

definition wrap64 :: "int \<Rightarrow> int" where
  "wrap64 x = (x + 2 ^ 63) mod 2 ^ 64 - 2 ^ 63"

definition int64_tensor :: "int list \<Rightarrow> bool" where
  "int64_tensor xs = (\<forall>c\<in>set xs. - (2 ^ 63) \<le> c \<and> c < 2 ^ 63)"

text \<open>
  \<^verbatim>\<open>if class_ids is not None: class_ids += self.config.codebook_size\<close>: the in-place
  addition writes to the tensor the caller passed, in 64-bit arithmetic. The model is
  meant for codebook sizes that fit 64 bits.
\<close>

definition shift_class_ids :: "config \<Rightarrow> addr option \<Rightarrow> heap \<Rightarrow> heap" where
  "shift_class_ids cfg class_ids h =
     (case class_ids of
        None \<Rightarrow> h
      | Some a \<Rightarrow> h(a := map (\<lambda>c. wrap64 (c + int (codebook_size cfg))) (h a)))"

text \<open>
  \<^verbatim>\<open>if input_ids is not None: input_ids = torch.ones(shape) * mask_token_id\<close>
  (lines 575-576 and 656-657).
\<close>

definition init_input_ids :: "config \<Rightarrow> nat \<Rightarrow> ids option \<Rightarrow> ids option" where
  "init_input_ids cfg batch_size input_ids =
     (case input_ids of
        None \<Rightarrow> None
      | Some _ \<Rightarrow> Some (replicate batch_size (replicate (num_vq_tokens cfg) (mask_token_id cfg))))"

section \<open>generate: score-ordered top-k masking\<close>

text \<open>
  The second half of an iteration of \<^verbatim>\<open>generate\<close> (lines 612-625): filtering, annealed
  temperature, sampling, filling the masked positions and scoring, on the grid and logits
  from which the class token has been removed.
\<close>

definition generate_update ::
  "config \<Rightarrow> 'g deps \<Rightarrow> real \<Rightarrow> real \<Rightarrow> int \<Rightarrow> int \<Rightarrow> ids \<Rightarrow> logits \<Rightarrow> 'g
     \<Rightarrow> (ids option \<times> real list list) \<times> 'g" where
  "generate_update cfg d starting_temperature topk_filter_thres timesteps steps_until_x0
       input_ids l g =
     (let filtered_logits = top_k d l topk_filter_thres;
          temperature = starting_temperature
                          * (real_of_int steps_until_x0 / real_of_int timesteps);
          sampled = gumbel_sample d filtered_logits temperature g;
          pred_ids = fst sampled;
          is_mask = eq_mask cfg input_ids;
          input_ids' = where2 is_mask pred_ids input_ids;
          probs_without_temperature = map (map softmax) l;
          scores = map (map (\<lambda>p. 1 - p)) (gather_probs probs_without_temperature pred_ids)
      in ((Some input_ids', scores), snd sampled))"

text \<open>
  One iteration of the loop of \<^verbatim>\<open>generate\<close> (lines 584-625). The loop variables are
  \<^verbatim>\<open>input_ids\<close> and \<^verbatim>\<open>scores\<close>. \<^verbatim>\<open>scores.topk(k)\<close> raises RuntimeError when k exceeds
  the sequence length (the last dimension of \<^verbatim>\<open>scores\<close>); \<^verbatim>\<open>None.scatter\<close> raises
  AttributeError. \<^verbatim>\<open>class_ids\<close> is the value of the (already shifted) class tensor.
\<close>

definition generate_round ::
  "config \<Rightarrow> 'g deps \<Rightarrow> int list option \<Rightarrow> states option \<Rightarrow> real \<Rightarrow> real \<Rightarrow> int \<Rightarrow> real
     \<Rightarrow> (real \<Rightarrow> real) \<Rightarrow> real \<times> int \<Rightarrow> ids option \<times> real list list \<Rightarrow> 'g
     \<Rightarrow> (error + ids option \<times> real list list) \<times> 'g" where
  "generate_round cfg d class_ids encoder_hidden_states starting_temperature topk_filter_thres
       timesteps guidance_scale noise_schedule ts st g =
     (let timestep = fst ts; steps_until_x0 = snd ts;
          input_ids = fst st; scores = snd st;
          seq_len = num_vq_tokens cfg;
          rand_mask_prob = noise_schedule timestep;
          num_token_masked = max (py_int (rand_mask_prob * real seq_len)) 1
      in if int seq_len < num_token_masked then (Inl RuntimeError, g)
         else case input_ids of
           None \<Rightarrow> (Inl AttributeError, g)
         | Some x \<Rightarrow>
            (let x1 = map2 (\<lambda>row sc. scatter_row row (topk_indices d sc (nat num_token_masked))
                                        (mask_token_id cfg)) x scores;
                 x2 = (case class_ids of None \<Rightarrow> x1 | Some c \<Rightarrow> prepend_class c x1)
             in case guided_logits cfg d (Some x2) encoder_hidden_states guidance_scale of
                  Inl e \<Rightarrow> (Inl e, g)
                | Inr l0 \<Rightarrow>
                   (let x3 = (case class_ids of None \<Rightarrow> x2 | Some c \<Rightarrow> map tl x2);
                        l = (case class_ids of None \<Rightarrow> l0 | Some c \<Rightarrow> map tl l0);
                        r = generate_update cfg d starting_temperature topk_filter_thres
                              timesteps steps_until_x0 x3 l g
                    in (Inr (fst r), snd r))))"

text \<open>
  \<^verbatim>\<open>generate\<close> (lines 551-627). \<^verbatim>\<open>torch.linspace(0, 1, timesteps)\<close> raises RuntimeError
  for a negative number of steps. The function returns its loop variable \<^verbatim>\<open>input_ids\<close>,
  which is still None when no round ran and none was passed. The store is returned with
  the result: an exception does not undo the in-place update of \<^verbatim>\<open>class_ids\<close>.
\<close>

definition generate ::
  "config \<Rightarrow> 'g deps \<Rightarrow> ids option \<Rightarrow> addr option \<Rightarrow> states option \<Rightarrow> real \<Rightarrow> real \<Rightarrow> int
     \<Rightarrow> real \<Rightarrow> (real \<Rightarrow> real) \<Rightarrow> heap \<Rightarrow> 'g \<Rightarrow> (error + ids option) \<times> heap \<times> 'g" where
  "generate cfg d input_ids class_ids encoder_hidden_states temperature topk_filter_thres
       timesteps guidance_scale noise_schedule h g =
     (case batch_size_of h class_ids encoder_hidden_states of
        Inl e \<Rightarrow> (Inl e, h, g)
      | Inr batch_size \<Rightarrow>
         (let h' = shift_class_ids cfg class_ids h;
              input_ids0 = init_input_ids cfg batch_size input_ids;
              scores = replicate batch_size (replicate (num_vq_tokens cfg) 0);
              starting_temperature = temperature
          in if timesteps < 0 then (Inl RuntimeError, h', g)
             else
               (case for_loop
                       (generate_round cfg d (map_option h' class_ids) encoder_hidden_states
                          starting_temperature topk_filter_thres timesteps guidance_scale
                          noise_schedule)
                       (zip (linspace01 (nat timesteps)) (reversed_range (nat timesteps)))
                       (input_ids0, scores) g of
                  (Inl e, g') \<Rightarrow> (Inl e, h', g')
                | (Inr st, g') \<Rightarrow> (Inr (fst st), h', g'))))"

section \<open>generate2: the MaskGIT decode\<close>

text \<open>
  \<^verbatim>\<open>mask_len = max(1, min(unknown_map.sum(dim=-1) - 1, floor(seq_len * mask_ratio)))\<close>
  (lines 701-706), for one row of the batch.
\<close>

definition unknown_count :: "bool list \<Rightarrow> int" where
  "unknown_count unknown_row = int (length (filter (\<lambda>b. b) unknown_row))"

definition mask_len_row :: "nat \<Rightarrow> real \<Rightarrow> bool list \<Rightarrow> int" where
  "mask_len_row seq_len mask_ratio unknown_row =
     max 1 (min (unknown_count unknown_row - 1) \<lfloor>real seq_len * mask_ratio\<rfloor>)"

text \<open>
  \<^verbatim>\<open>torch.stack([torch.multinomial(l.softmax(dim=-1), 1).squeeze(1) for l in logits])\<close>:
  one draw per batch element, in order, each advancing the generator.
\<close>

fun sample_batch ::
  "(real list list \<Rightarrow> 'g \<Rightarrow> int list \<times> 'g) \<Rightarrow> logits \<Rightarrow> 'g \<Rightarrow> ids \<times> 'g" where
  "sample_batch m [] g = ([], g)"
| "sample_batch m (l # ls) g =
     (let r = m (map softmax l) g; rs = sample_batch m ls (snd r)
      in (fst r # fst rs, snd rs))"

text \<open>
  The variables that \<^verbatim>\<open>generate2\<close> carries from one round to the next.
  \<^verbatim>\<open>sampled_ids\<close> is unbound (None here) until the first round assigns it.
\<close>

record locals2 =
  cur_input_ids :: "ids option"
  cur_sampled_ids :: "ids option"
  cur_temperature :: real

text \<open>
  The second half of an iteration of \<^verbatim>\<open>generate2\<close> (lines 682-712): sampling, keeping the
  known tokens, the mask length, the temperature and the re-masking, on the grid and
  logits from which the class token has been removed. \<^verbatim>\<open>temperature\<close> is the value of
  the loop variable when the round starts.
\<close>

definition generate2_update ::
  "config \<Rightarrow> 'g deps \<Rightarrow> int \<Rightarrow> (real \<Rightarrow> real) \<Rightarrow> int \<Rightarrow> real \<Rightarrow> ids \<Rightarrow> logits \<Rightarrow> 'g
     \<Rightarrow> locals2 \<times> 'g" where
  "generate2_update cfg d timesteps noise_schedule step temperature input_ids l g =
     (let drawn = sample_batch (multinomial d) l g;
          unknown_map = eq_mask cfg input_ids;
          sampled_ids = where2 unknown_map (fst drawn) input_ids;
          ratio = 1 * (real_of_int step + 1) / real_of_int timesteps;
          mask_ratio = noise_schedule ratio;
          probs = map (map softmax) l;
          selected_probs = gather_probs probs sampled_ids;
          selected_probs' = map2 (map2 (\<lambda>u p. if u then p else finfo_max))
                              unknown_map selected_probs;
          mask_len = map (mask_len_row (num_vq_tokens cfg) mask_ratio) unknown_map;
          temperature' = temperature * (1 - ratio);
          masked = mask_by_random_topk d mask_len selected_probs' temperature' (snd drawn);
          input_ids' = map2 (map2 (\<lambda>m s. if m then mask_token_id cfg else s))
                         (fst masked) sampled_ids
      in (\<lparr>cur_input_ids = Some input_ids', cur_sampled_ids = Some sampled_ids,
            cur_temperature = temperature'\<rparr>, snd masked))"

text \<open>
  One iteration of the loop of \<^verbatim>\<open>generate2\<close> (lines 660-712). With \<^verbatim>\<open>input_ids\<close> None,
  \<^verbatim>\<open>torch.cat([class_ids[:, None], None])\<close> raises TypeError; without class ids the failure
  is that of the logit computation (and, were it to return, of \<^verbatim>\<open>torch.where\<close> on None).
  \<^verbatim>\<open>torch.stack\<close> of the per-row draws raises RuntimeError on an empty batch.
\<close>

definition generate2_round ::
  "config \<Rightarrow> 'g deps \<Rightarrow> int list option \<Rightarrow> states option \<Rightarrow> int \<Rightarrow> real \<Rightarrow> (real \<Rightarrow> real)
     \<Rightarrow> int \<Rightarrow> locals2 \<Rightarrow> 'g \<Rightarrow> (error + locals2) \<times> 'g" where
  "generate2_round cfg d class_ids encoder_hidden_states timesteps guidance_scale noise_schedule
       step st g =
     (case cur_input_ids st of
        None \<Rightarrow>
          (case class_ids of
             Some c \<Rightarrow> (Inl TypeError, g)
           | None \<Rightarrow>
               (case guided_logits cfg d None encoder_hidden_states guidance_scale of
                  Inl e \<Rightarrow> (Inl e, g)
                | Inr l0 \<Rightarrow> (Inl TypeError, g)))
      | Some x \<Rightarrow>
         (let x2 = (case class_ids of None \<Rightarrow> x | Some c \<Rightarrow> prepend_class c x)
          in case guided_logits cfg d (Some x2) encoder_hidden_states guidance_scale of
               Inl e \<Rightarrow> (Inl e, g)
             | Inr l0 \<Rightarrow>
                (let x3 = (case class_ids of None \<Rightarrow> x2 | Some c \<Rightarrow> map tl x2);
                     l = (case class_ids of None \<Rightarrow> l0 | Some c \<Rightarrow> map tl l0);
                     r = generate2_update cfg d timesteps noise_schedule step
                           (cur_temperature st) x3 l g
                 in if l = [] then (Inl RuntimeError, g) else (Inr (fst r), snd r))))"

text \<open>\<^verbatim>\<open>range(timesteps)\<close>\<close>

definition py_range :: "int \<Rightarrow> int list" where
  "py_range n = map int [0..<nat n]"

text \<open>The loop of \<^verbatim>\<open>generate2\<close> over the given steps, from the state before round 0.\<close>

definition generate2_rounds ::
  "config \<Rightarrow> 'g deps \<Rightarrow> ids option \<Rightarrow> int list option \<Rightarrow> states option \<Rightarrow> real \<Rightarrow> int
     \<Rightarrow> real \<Rightarrow> (real \<Rightarrow> real) \<Rightarrow> nat \<Rightarrow> int list \<Rightarrow> 'g \<Rightarrow> (error + locals2) \<times> 'g" where
  "generate2_rounds cfg d input_ids class_ids encoder_hidden_states temperature timesteps
       guidance_scale noise_schedule batch_size steps g =
     for_loop
       (generate2_round cfg d class_ids encoder_hidden_states timesteps guidance_scale
          noise_schedule)
       steps
       \<lparr>cur_input_ids = init_input_ids cfg batch_size input_ids, cur_sampled_ids = None,
        cur_temperature = temperature\<rparr> g"

text \<open>
  \<^verbatim>\<open>generate2\<close> (lines 629-714). \<^verbatim>\<open>generator\<close> stands for the keyword arguments collected
  by \<^verbatim>\<open>**kwargs\<close> (the pipeline passes \<^verbatim>\<open>generator=generator\<close>); the body never reads
  them. \<^verbatim>\<open>return sampled_ids\<close> raises UnboundLocalError when no round assigned it.
\<close>

definition generate2 ::
  "config \<Rightarrow> 'g deps \<Rightarrow> ids option \<Rightarrow> addr option \<Rightarrow> states option \<Rightarrow> real \<Rightarrow> int \<Rightarrow> real
     \<Rightarrow> (real \<Rightarrow> real) \<Rightarrow> 'g option \<Rightarrow> heap \<Rightarrow> 'g \<Rightarrow> (error + ids) \<times> heap \<times> 'g" where
  "generate2 cfg d input_ids class_ids encoder_hidden_states temperature timesteps
       guidance_scale noise_schedule generator h g =
     (case batch_size_of h class_ids encoder_hidden_states of
        Inl e \<Rightarrow> (Inl e, h, g)
      | Inr batch_size \<Rightarrow>
         (let h' = shift_class_ids cfg class_ids h
          in case generate2_rounds cfg d input_ids (map_option h' class_ids)
                    encoder_hidden_states temperature timesteps guidance_scale noise_schedule
                    batch_size (py_range timesteps) g of
               (Inl e, g') \<Rightarrow> (Inl e, h', g')
             | (Inr st, g') \<Rightarrow>
                 (case cur_sampled_ids st of
                    None \<Rightarrow> (Inl UnboundLocalError, h', g')
                  | Some sampled_ids \<Rightarrow> (Inr sampled_ids, h', g'))))"

section \<open>Shapes, value ranges and the contracts of the collaborators\<close>

text \<open>A two-dimensional tensor of shape (b, n), and logits of shape (b, n, c).\<close>

definition grid_shape :: "nat \<Rightarrow> nat \<Rightarrow> 'a list list \<Rightarrow> bool" where
  "grid_shape b n x = (length x = b \<and> (\<forall>row\<in>set x. length row = n))"

definition logits_shape :: "nat \<Rightarrow> nat \<Rightarrow> nat \<Rightarrow> logits \<Rightarrow> bool" where
  "logits_shape b n c l = (grid_shape b n l \<and> (\<forall>e\<in>set l. \<forall>v\<in>set e. length v = c))"

text \<open>Every id of the grid is a codebook index; the grid holds no mask token; every id
  is a codebook index or the mask token.\<close>

definition in_codebook :: "config \<Rightarrow> ids \<Rightarrow> bool" where
  "in_codebook cfg x = (\<forall>row\<in>set x. \<forall>t\<in>set row. 0 \<le> t \<and> t < int (codebook_size cfg))"

definition mask_free :: "config \<Rightarrow> ids \<Rightarrow> bool" where
  "mask_free cfg x = (\<forall>row\<in>set x. mask_token_id cfg \<notin> set row)"

definition codebook_or_mask :: "config \<Rightarrow> ids \<Rightarrow> bool" where
  "codebook_or_mask cfg x =
     (\<forall>row\<in>set x. \<forall>t\<in>set row.
        t = mask_token_id cfg \<or> (0 \<le> t \<and> t < int (codebook_size cfg)))"

text \<open>
  The network returns one logit vector of \<^verbatim>\<open>vocab_size\<close> channels per input position
  (\<^verbatim>\<open>MlmLayer.to_logits\<close> is \<^verbatim>\<open>nn.Linear(hidden_size, vocab_size)\<close>).
\<close>

definition layers_ok :: "config \<Rightarrow> 'g deps \<Rightarrow> bool" where
  "layers_ok cfg d =
     (\<forall>x e b n. grid_shape b n x \<longrightarrow> logits_shape b n (nat (vocab_size cfg)) (layers d x e))"

text \<open>\<^verbatim>\<open>torch.multinomial(probs, 1).squeeze(1)\<close> on n rows of c > 0 categories returns n
  category indices.\<close>

definition multinomial_ok :: "'g deps \<Rightarrow> bool" where
  "multinomial_ok d =
     (\<forall>probs g n c. 0 < c \<longrightarrow> length probs = n \<longrightarrow> (\<forall>p\<in>set probs. length p = c) \<longrightarrow>
        length (fst (multinomial d probs g)) = n
        \<and> (\<forall>i\<in>set (fst (multinomial d probs g)). 0 \<le> i \<and> i < int c))"

text \<open>\<^verbatim>\<open>top_k\<close> filters logits and keeps their shape; \<^verbatim>\<open>gumbel_sample\<close> takes an argmax
  over the channel dimension, so it returns one channel index per position.\<close>

definition top_k_ok :: "'g deps \<Rightarrow> bool" where
  "top_k_ok d =
     (\<forall>l thres b n c. logits_shape b n c l \<longrightarrow> logits_shape b n c (top_k d l thres))"

definition gumbel_sample_ok :: "'g deps \<Rightarrow> bool" where
  "gumbel_sample_ok d =
     (\<forall>l t g b n c. 0 < c \<longrightarrow> logits_shape b n c l \<longrightarrow>
        grid_shape b n (fst (gumbel_sample d l t g))
        \<and> (\<forall>row\<in>set (fst (gumbel_sample d l t g)). \<forall>i\<in>set row. 0 \<le> i \<and> i < int c))"

text \<open>\<^verbatim>\<open>mask_by_random_topk\<close>, given one mask length per batch row, returns a boolean
  mask of the shape of the confidences.\<close>

definition mask_by_random_topk_ok :: "'g deps \<Rightarrow> bool" where
  "mask_by_random_topk_ok d =
     (\<forall>mask_len probs t g b n. length mask_len = b \<longrightarrow> grid_shape b n probs \<longrightarrow>
        grid_shape b n (fst (mask_by_random_topk d mask_len probs t g)))"

text \<open>A configuration whose vocabulary holds the codebook and, above it, at least the
  mask token (\<^verbatim>\<open>vocab_size\<close> is \<^verbatim>\<open>codebook_size + 1\<close>, plus the number of classes for
  class-conditioned generation).\<close>

definition config_ok :: "config \<Rightarrow> bool" where
  "config_ok cfg = (0 < codebook_size cfg \<and> int (codebook_size cfg) < vocab_size cfg)"

section \<open>A small instance for concrete runs\<close>

text \<open>
  Stand-ins for the collaborators, used to run the loops on concrete inputs: a network
  that returns zero logits over \<^verbatim>\<open>vocab_size\<close> channels at every position, and samplers
  that read a counter as the state of the ambient generator. \<open>stub_multinomial\<close> and
  \<open>stub_gumbel_sample\<close> draw the id \<open>g mod channels\<close>; \<open>stub_mask_by_random_topk\<close> masks,
  in each row, the first \<open>mask_len\<close> positions whose confidence is not pinned.
\<close>

fun mask_lowest :: "nat \<Rightarrow> real list \<Rightarrow> bool list" where
  "mask_lowest n [] = []"
| "mask_lowest n (p # ps) =
     (if 0 < n \<and> p < finfo_max then True # mask_lowest (n - 1) ps
      else False # mask_lowest n ps)"

definition stub_multinomial :: "real list list \<Rightarrow> nat \<Rightarrow> int list \<times> nat" where
  "stub_multinomial probs g = (map (\<lambda>row. int (g mod length row)) probs, Suc g)"

definition stub_gumbel_sample :: "logits \<Rightarrow> real \<Rightarrow> nat \<Rightarrow> ids \<times> nat" where
  "stub_gumbel_sample l t g = (map (map (\<lambda>row. int (g mod length row))) l, Suc g)"

definition stub_mask_by_random_topk ::
  "int list \<Rightarrow> real list list \<Rightarrow> real \<Rightarrow> nat \<Rightarrow> bool list list \<times> nat" where
  "stub_mask_by_random_topk mask_len probs t g =
     (map2 (\<lambda>n row. mask_lowest (nat n) row) mask_len probs, Suc g)"

definition stub_deps :: "nat \<Rightarrow> nat deps" where
  "stub_deps channels =
     \<lparr>layers = (\<lambda>x e. map (map (\<lambda>t. replicate channels 0)) x),
      top_k = (\<lambda>l thres. l),
      gumbel_sample = stub_gumbel_sample,
      topk_indices = (\<lambda>sc k. [0..<k]),
      multinomial = stub_multinomial,
      mask_by_random_topk = stub_mask_by_random_topk\<rparr>"

text \<open>A network whose logits depend on the conditioning: every logit is the first
  entry of the first encoder state of the first batch element (0 without conditioning).\<close>

definition cond_layers :: "ids \<Rightarrow> states option \<Rightarrow> logits" where
  "cond_layers x e =
     map (map (\<lambda>t. replicate 4 (case e of Some (((v # _) # _) # _) \<Rightarrow> v | _ \<Rightarrow> 0))) x"

text \<open>Two codebook entries (ids 0 and 1), one class token (id 2), the mask token (id 3),
  and two image tokens per grid row.\<close>

definition tiny_config :: config where
  "tiny_config = \<lparr>vocab_size = 4, codebook_size = 2, num_vq_tokens = 2,
                   add_cross_attention = False\<rparr>"

definition cond_deps :: "nat deps" where
  "cond_deps = (stub_deps 4)\<lparr>layers := cond_layers\<rparr>"

definition tiny_deps :: "nat deps" where
  "tiny_deps = stub_deps 4"

text \<open>The linear schedule, one of the pluggable variants.\<close>

definition linear_schedule :: "real \<Rightarrow> real" where
  "linear_schedule r = 1 - r"

section \<open>Properties of guidance mixing\<close>

lemma mix_row_nth:
  "length c = length u \<Longrightarrow> k < length u \<Longrightarrow>
     mix_row s c u ! k = u ! k + s * (c ! k - u ! k)"
  by (simp add: mix_row_def)

lemma mix_row_length: "length c = length u \<Longrightarrow> length (mix_row s c u) = length u"
  by (simp add: mix_row_def)

lemma mix_row_one: "length c = length u \<Longrightarrow> mix_row 1 c u = c"
  by (rule nth_equalityI) (simp_all add: mix_row_def)

lemma mix_row_zero: "length c = length u \<Longrightarrow> mix_row 0 c u = u"
  by (rule nth_equalityI) (simp_all add: mix_row_def)

lemma same_shape_lengths:
  assumes "same_shape c u"
  shows "length c = length u"
    and "i < length u \<Longrightarrow> length (c ! i) = length (u ! i)"
    and "i < length u \<Longrightarrow> j < length (u ! i) \<Longrightarrow> length (c ! i ! j) = length (u ! i ! j)"
proof -
  show len: "length c = length u"
    using assms by (simp add: same_shape_def list_all2_lengthD)
  have inner: "list_all2 (\<lambda>p q. length p = length q) (c ! i) (u ! i)" if "i < length u"
    using assms that len by (simp add: same_shape_def list_all2_conv_all_nth)
  show "length (c ! i) = length (u ! i)" if "i < length u"
    using inner [OF that] by (simp add: list_all2_lengthD)
  show "length (c ! i ! j) = length (u ! i ! j)" if "i < length u" "j < length (u ! i)"
    using inner [OF that(1)] that(2) by (simp add: list_all2_conv_all_nth)
qed

lemma guidance_mix_nth:
  assumes "same_shape c u" "i < length u" "j < length (u ! i)"
  shows "guidance_mix s c u ! i ! j = mix_row s (c ! i ! j) (u ! i ! j)"
  using assms same_shape_lengths [OF assms(1)]
  by (simp add: guidance_mix_def)

lemma guidance_mix_shape:
  assumes "same_shape c u"
  shows "length (guidance_mix s c u) = length u"
    and "i < length u \<Longrightarrow> length (guidance_mix s c u ! i) = length (u ! i)"
  using same_shape_lengths [OF assms] by (simp_all add: guidance_mix_def)

lemma guidance_mix_one:
  assumes "same_shape c u"
  shows "guidance_mix 1 c u = c"
proof (rule nth_equalityI)
  show "length (guidance_mix 1 c u) = length c"
    using same_shape_lengths(1) [OF assms] by (simp add: guidance_mix_def)
next
  fix i assume "i < length (guidance_mix 1 c u)"
  then have i: "i < length u"
    using same_shape_lengths(1) [OF assms] by (simp add: guidance_mix_def)
  show "guidance_mix 1 c u ! i = c ! i"
  proof (rule nth_equalityI)
    show "length (guidance_mix 1 c u ! i) = length (c ! i)"
      using guidance_mix_shape(2) [OF assms i] same_shape_lengths(2) [OF assms i] by simp
  next
    fix j assume "j < length (guidance_mix 1 c u ! i)"
    then have j: "j < length (u ! i)"
      using guidance_mix_shape(2) [OF assms i] by simp
    show "guidance_mix 1 c u ! i ! j = c ! i ! j"
      using guidance_mix_nth [OF assms i j] same_shape_lengths(3) [OF assms i j]
      by (simp add: mix_row_one)
  qed
qed

lemma guidance_mix_zero:
  assumes "same_shape c u"
  shows "guidance_mix 0 c u = u"
proof (rule nth_equalityI)
  show "length (guidance_mix 0 c u) = length u"
    using guidance_mix_shape(1) [OF assms] .
next
  fix i assume "i < length (guidance_mix 0 c u)"
  then have i: "i < length u"
    using guidance_mix_shape(1) [OF assms] by simp
  show "guidance_mix 0 c u ! i = u ! i"
  proof (rule nth_equalityI)
    show "length (guidance_mix 0 c u ! i) = length (u ! i)"
      using guidance_mix_shape(2) [OF assms i] .
  next
    fix j assume "j < length (guidance_mix 0 c u ! i)"
    then have j: "j < length (u ! i)"
      using guidance_mix_shape(2) [OF assms i] by simp
    show "guidance_mix 0 c u ! i ! j = u ! i ! j"
      using guidance_mix_nth [OF assms i j] same_shape_lengths(3) [OF assms i j]
      by (simp add: mix_row_zero)
  qed
qed

text \<open>
  Claim C7. The guidance mixing step computes
  \<open>uncond + scale * (cond - uncond)\<close> elementwise over equally-shaped tensors: the result
  has the shape of its arguments, each entry is given by that formula, scale = 1 yields
  exactly the conditional logits and scale = 0 exactly the unconditional logits.
  (Entries are reals here; the floating-point rounding of the tensor library is not
  modelled.)
\<close>

theorem guidance_mix_degenerate:
  assumes "same_shape cond_logits uncond_logits"
  shows "same_shape (guidance_mix scale cond_logits uncond_logits) uncond_logits
       \<and> (\<forall>i < length uncond_logits. \<forall>j < length (uncond_logits ! i).
             \<forall>k < length (uncond_logits ! i ! j).
               guidance_mix scale cond_logits uncond_logits ! i ! j ! k =
                 uncond_logits ! i ! j ! k
                   + scale * (cond_logits ! i ! j ! k - uncond_logits ! i ! j ! k))
       \<and> guidance_mix 1 cond_logits uncond_logits = cond_logits
       \<and> guidance_mix 0 cond_logits uncond_logits = uncond_logits"
proof (intro conjI allI impI)
  show "same_shape (guidance_mix scale cond_logits uncond_logits) uncond_logits"
    unfolding same_shape_def
  proof (rule list_all2_all_nthI)
    show "length (guidance_mix scale cond_logits uncond_logits) = length uncond_logits"
      using guidance_mix_shape(1) [OF assms] .
  next
    fix i assume "i < length (guidance_mix scale cond_logits uncond_logits)"
    then have i: "i < length uncond_logits"
      using guidance_mix_shape(1) [OF assms] by simp
    show "list_all2 (\<lambda>p q. length p = length q)
            (guidance_mix scale cond_logits uncond_logits ! i) (uncond_logits ! i)"
    proof (rule list_all2_all_nthI)
      show "length (guidance_mix scale cond_logits uncond_logits ! i) = length (uncond_logits ! i)"
        using guidance_mix_shape(2) [OF assms i] .
    next
      fix j assume "j < length (guidance_mix scale cond_logits uncond_logits ! i)"
      then have j: "j < length (uncond_logits ! i)"
        using guidance_mix_shape(2) [OF assms i] by simp
      show "length (guidance_mix scale cond_logits uncond_logits ! i ! j)
              = length (uncond_logits ! i ! j)"
        using guidance_mix_nth [OF assms i j] same_shape_lengths(3) [OF assms i j]
        by (simp add: mix_row_length)
    qed
  qed
next
  fix i j k
  assume i: "i < length uncond_logits" and j: "j < length (uncond_logits ! i)"
    and k: "k < length (uncond_logits ! i ! j)"
  show "guidance_mix scale cond_logits uncond_logits ! i ! j ! k =
          uncond_logits ! i ! j ! k
            + scale * (cond_logits ! i ! j ! k - uncond_logits ! i ! j ! k)"
    using guidance_mix_nth [OF assms i j] same_shape_lengths(3) [OF assms i j] k
    by (simp add: mix_row_nth)
next
  show "guidance_mix 1 cond_logits uncond_logits = cond_logits"
    using guidance_mix_one [OF assms] .
next
  show "guidance_mix 0 cond_logits uncond_logits = uncond_logits"
    using guidance_mix_zero [OF assms] .
qed

theorem guidance_mix_degenerate_witness:
  "same_shape [[[1, 2], [3, 4]]] [[[5, 6], [7, 8]]]
   \<and> guidance_mix 3 [[[1, 2], [3, 4]]] [[[5, 6], [7, 8]]] = [[[-7, -6], [-5, -4]]]
   \<and> guidance_mix 1 [[[1, 2], [3, 4]]] [[[5, 6], [7, 8]]] = [[[1, 2], [3, 4]]]
   \<and> guidance_mix 0 [[[1, 2], [3, 4]]] [[[5, 6], [7, 8]]] = [[[5, 6], [7, 8]]]"
proof -
  have h: "same_shape [[[1, 2], [3, 4]]] [[[5, 6], [7, 8::real]]]"
    by (simp add: same_shape_def)
  have m: "guidance_mix 3 [[[1, 2], [3, 4]]] [[[5, 6], [7, 8]]] = [[[-7, -6], [-5, -4]]]"
    by (simp add: guidance_mix_def mix_row_def)
  show ?thesis
    using h m guidance_mix_degenerate [OF h, of 3] by simp
qed

section \<open>Concrete runs of the small instance\<close>

lemma tiny_logits:
  "guided_logits tiny_config tiny_deps (Some x) enc 0 = Inr (map (map (\<lambda>t. [0, 0])) x)"
  by (simp add: guided_logits_def forward_def stub_deps_def tiny_deps_def tiny_config_def
        truncate_channels_def eval_nat_numeral)

lemma softmax_zeros: "softmax [0, 0] = [1 / 2, 1 / 2]"
  by (simp add: softmax_def)

lemma tiny_init: "init_input_ids tiny_config (Suc 0) (Some x) = Some [[3, 3]]"
  by (simp add: init_input_ids_def tiny_config_def mask_token_id_def eval_nat_numeral)

lemma tiny_fields:
  "multinomial tiny_deps = stub_multinomial"
  "mask_by_random_topk tiny_deps = stub_mask_by_random_topk"
  "gumbel_sample tiny_deps = stub_gumbel_sample"
  "top_k tiny_deps = (\<lambda>l thres. l)"
  "topk_indices tiny_deps = (\<lambda>sc k. [0..<k])"
  "num_vq_tokens tiny_config = 2"
  "codebook_size tiny_config = 2"
  "mask_token_id tiny_config = 3"
  by (simp_all add: stub_deps_def tiny_deps_def tiny_config_def mask_token_id_def)

lemmas round2_eval = generate2_round_def generate2_update_def tiny_logits softmax_zeros tiny_fields
  eq_mask_def where2_def where_row_def gather_probs_def mask_len_row_def unknown_count_def
  stub_multinomial_def stub_mask_by_random_topk_def linear_schedule_def finfo_max_def Let_def
  prepend_class_def numeral_2_eq_2 [symmetric]

lemma py_range_eval: "py_range 0 = []" "py_range 1 = [0]" "py_range 3 = [0, 1, 2]"
  by (simp_all add: py_range_def eval_nat_numeral upt_rec)

text \<open>Three rounds with text conditioning, no guidance, the linear schedule.\<close>

lemma tiny_round0:
  "generate2_round tiny_config tiny_deps None (Some [[[1]]]) 3 0 linear_schedule 0
     \<lparr>cur_input_ids = Some [[3, 3]], cur_sampled_ids = None, cur_temperature = 1\<rparr> 0
   = (Inr \<lparr>cur_input_ids = Some [[3, 0]], cur_sampled_ids = Some [[0, 0]],
            cur_temperature = 2 / 3\<rparr>, 2)"
  by (simp add: round2_eval)

lemma tiny_round1:
  "generate2_round tiny_config tiny_deps None (Some [[[1]]]) 3 0 linear_schedule 1
     \<lparr>cur_input_ids = Some [[3, 0]], cur_sampled_ids = Some [[0, 0]],
      cur_temperature = 2 / 3\<rparr> 2
   = (Inr \<lparr>cur_input_ids = Some [[3, 0]], cur_sampled_ids = Some [[0, 0]],
            cur_temperature = 2 / 9\<rparr>, 4)"
  by (simp add: round2_eval)

lemma tiny_round2:
  "generate2_round tiny_config tiny_deps None (Some [[[1]]]) 3 0 linear_schedule 2
     \<lparr>cur_input_ids = Some [[3, 0]], cur_sampled_ids = Some [[0, 0]],
      cur_temperature = 2 / 9\<rparr> 4
   = (Inr \<lparr>cur_input_ids = Some [[3, 0]], cur_sampled_ids = Some [[0, 0]],
            cur_temperature = 0\<rparr>, 6)"
  by (simp add: round2_eval)

text \<open>A single round, from two states of the ambient generator.\<close>

lemma single_round_0:
  "generate2_round tiny_config tiny_deps None (Some [[[1]]]) 1 0 linear_schedule 0
     \<lparr>cur_input_ids = Some [[3, 3]], cur_sampled_ids = None, cur_temperature = 1\<rparr> 0
   = (Inr \<lparr>cur_input_ids = Some [[3, 0]], cur_sampled_ids = Some [[0, 0]],
            cur_temperature = 0\<rparr>, 2)"
  by (simp add: round2_eval)

lemma single_round_1:
  "generate2_round tiny_config tiny_deps None (Some [[[1]]]) 1 0 linear_schedule 0
     \<lparr>cur_input_ids = Some [[3, 3]], cur_sampled_ids = None, cur_temperature = 1\<rparr> (Suc 0)
   = (Inr \<lparr>cur_input_ids = Some [[3, 1]], cur_sampled_ids = Some [[1, 1]],
            cur_temperature = 0\<rparr>, 3)"
  by (simp add: round2_eval)

section \<open>The mask length of generate2\<close>

text \<open>
  Claim C3, as the code has it. In every round of \<^verbatim>\<open>generate2\<close> and for every batch row the
  mask length handed to \<^verbatim>\<open>mask_by_random_topk\<close> is
  \<open>max 1 (min (unknownCount - 1) (floor (seq_len * mask_ratio)))\<close>. It is at least 1 always;
  it is at most \<open>unknownCount - 1\<close> whenever at least two positions are unknown; with at
  most one unknown position the outer maximum wins and it is exactly 1.
\<close>

theorem mask_len_row_bounds:
  "1 \<le> mask_len_row seq_len mask_ratio unknown_row
   \<and> (2 \<le> unknown_count unknown_row \<longrightarrow>
        mask_len_row seq_len mask_ratio unknown_row \<le> unknown_count unknown_row - 1)
   \<and> (unknown_count unknown_row \<le> 1 \<longrightarrow> mask_len_row seq_len mask_ratio unknown_row = 1)"
  by (auto simp add: mask_len_row_def)

theorem mask_len_row_bounds_witness:
  "2 \<le> unknown_count [True, True, True]
   \<and> 1 \<le> mask_len_row 3 (9 / 10) [True, True, True]
   \<and> mask_len_row 3 (9 / 10) [True, True, True] \<le> unknown_count [True, True, True] - 1
   \<and> unknown_count [True, False, False] \<le> 1
   \<and> mask_len_row 3 (9 / 10) [True, False, False] = 1"
  using mask_len_row_bounds [of 3 "9 / 10" "[True, True, True]"]
    mask_len_row_bounds [of 3 "9 / 10" "[True, False, False]"]
  by (simp add: unknown_count_def)

text \<open>
  Claim C3 as stated fails. With two image tokens and three rounds, round 0 leaves one
  position masked, so round 1 (not the terminal round, which is round 2) starts with
  \<open>unknownCount = 1\<close>; its mask length is 1, which exceeds \<open>unknownCount - 1 = 0\<close>.
\<close>

theorem mask_len_upper_bound_counterexample:
  "generate2_rounds tiny_config tiny_deps (Some []) None (Some [[[1]]]) 1 3 0
      linear_schedule 1 [0] 0
     = (Inr \<lparr>cur_input_ids = Some [[3, 0]], cur_sampled_ids = Some [[0, 0]],
              cur_temperature = 2 / 3\<rparr>, 2)
   \<and> map unknown_count (eq_mask tiny_config [[3, 0]]) = [1]
   \<and> map (mask_len_row (num_vq_tokens tiny_config) (linear_schedule ((1 + 1) / 3)))
         (eq_mask tiny_config [[3, 0]]) = [1]
   \<and> \<not> (mask_len_row (num_vq_tokens tiny_config) (linear_schedule ((1 + 1) / 3))
            [True, False]
          \<le> unknown_count [True, False] - 1)"
  by (simp add: generate2_rounds_def tiny_init tiny_round0 tiny_fields eq_mask_def
        unknown_count_def mask_len_row_def linear_schedule_def)

section \<open>The temperature of generate2\<close>

lemma generate2_round_temperature:
  assumes "generate2_round cfg d class_ids ehs timesteps guidance_scale noise_schedule step st g
             = (Inr st', g')"
  shows "cur_temperature st'
           = cur_temperature st * (1 - (real_of_int step + 1) / real_of_int timesteps)"
  using assms
  by (auto simp add: generate2_round_def generate2_update_def Let_def
        split: option.splits sum.splits if_splits)

text \<open>
  Claim C5 against the code. \<^verbatim>\<open>temperature = temperature * (1.0 - ratio)\<close> overwrites the
  variable it reads, so the factors accumulate. With starting temperature 1 and three
  rounds, round 1 (ratio 2/3) uses 2/3 * 1/3 = 2/9, not 1 * (1 - 2/3) = 1/3.
\<close>

theorem generate2_temperature_compounds:
  "generate2_rounds tiny_config tiny_deps (Some []) None (Some [[[1]]]) 1 3 0
      linear_schedule 1 [0, 1] 0
     = (Inr \<lparr>cur_input_ids = Some [[3, 0]], cur_sampled_ids = Some [[0, 0]],
              cur_temperature = 2 / 9\<rparr>, 4)
   \<and> (2 / 9 :: real) \<noteq> 1 * (1 - (1 + 1) / 3)"
  by (simp add: generate2_rounds_def tiny_init tiny_round0 tiny_round1)

section \<open>The random source\<close>

text \<open>
  Claim C9 against the code. \<^verbatim>\<open>generate2\<close> accepts a \<^verbatim>\<open>generator\<close> keyword (through
  \<^verbatim>\<open>**kwargs\<close>) and never reads it: the draws come from the ambient generator. Two calls
  with identical arguments and the identical injected generator return different grids
  when the ambient state differs, and changing the injected generator changes nothing.
\<close>

theorem generate2_ignores_generator:
  "generate2 tiny_config tiny_deps (Some []) None (Some [[[1]]]) 1 1 0 linear_schedule
       (Some 7) (\<lambda>a. []) 0 = (Inr [[0, 0]], (\<lambda>a. []), 2)
   \<and> generate2 tiny_config tiny_deps (Some []) None (Some [[[1]]]) 1 1 0 linear_schedule
       (Some 7) (\<lambda>a. []) 1 = (Inr [[1, 1]], (\<lambda>a. []), 3)
   \<and> generate2 tiny_config tiny_deps (Some []) None (Some [[[1]]]) 1 1 0 linear_schedule
       (Some 8) (\<lambda>a. []) 0 = (Inr [[0, 0]], (\<lambda>a. []), 2)"
  by (simp add: generate2_def batch_size_of_def shift_class_ids_def generate2_rounds_def
        py_range_eval tiny_init single_round_0 single_round_1)

section \<open>Initialisation of the token grid\<close>

lemma init_input_ids_supplied:
  "init_input_ids cfg batch_size (Some x)
     = Some (replicate batch_size (replicate (num_vq_tokens cfg) (mask_token_id cfg)))"
  by (simp add: init_input_ids_def)

lemma tiny_schedule_range:
  "linspace01 0 = []" "reversed_range 0 = []"
  "zip (linspace01 (Suc 0)) (reversed_range (Suc 0)) = [(0, 0)]"
  by (simp_all add: linspace01_def reversed_range_def)

text \<open>
  Claim C2 against the code. The guard reads \<^verbatim>\<open>if input_ids is not None\<close>, so the
  all-masked grid is built only when the caller passed some \<^verbatim>\<open>input_ids\<close>; with the
  default None nothing is initialised and round 0 starts from None. \<^verbatim>\<open>generate\<close> then
  fails on \<^verbatim>\<open>None.scatter\<close>, \<^verbatim>\<open>generate2\<close> on \<^verbatim>\<open>torch.cat\<close> (class conditioning) or in the
  embedding (text conditioning).
\<close>

theorem default_input_ids_stay_none:
  "init_input_ids cfg batch_size None = None
   \<and> fst (generate tiny_config tiny_deps None (Some 0) None 1 (9 / 10) 1 0 linear_schedule
            (\<lambda>a. [0]) 0) = Inl AttributeError
   \<and> fst (generate2 tiny_config tiny_deps None (Some 0) None 1 1 0 linear_schedule None
            (\<lambda>a. [0]) 0) = Inl TypeError
   \<and> fst (generate2 tiny_config tiny_deps None None (Some [[[1]]]) 1 1 0 linear_schedule None
            (\<lambda>a. [0]) 0) = Inl AttributeError"
  by (simp add: init_input_ids_def generate_def generate2_def generate2_rounds_def
        batch_size_of_def shift_class_ids_def generate_round_def generate2_round_def
        guided_logits_def forward_def tiny_schedule_range py_range_eval tiny_fields
        linear_schedule_def py_int_def tiny_config_def)

section \<open>Non-positive timesteps\<close>

text \<open>
  Claim C6 as stated fails: \<^verbatim>\<open>generate\<close> with \<^verbatim>\<open>timesteps = 0\<close> raises nothing and returns
  the grid it started from, every position still masked.
\<close>

theorem generate_zero_timesteps_counterexample:
  "generate tiny_config tiny_deps (Some []) None (Some [[[1]]]) 1 (9 / 10) 0 0 linear_schedule
      (\<lambda>a. []) 0 = (Inr (Some [[3, 3]]), (\<lambda>a. []), 0)"
  by (simp add: generate_def batch_size_of_def shift_class_ids_def tiny_schedule_range
        tiny_init tiny_fields)

text \<open>
  Claim C6, as the code has it. Neither function validates \<^verbatim>\<open>timesteps\<close>. When it is below
  1 and the batch size can be read from the conditioning, no round runs: the outcome is
  the same whatever the network and the samplers are, and the ambient generator is left
  as it was. \<^verbatim>\<open>generate2\<close> fails on \<^verbatim>\<open>return sampled_ids\<close> with UnboundLocalError;
  \<^verbatim>\<open>generate\<close> fails in \<^verbatim>\<open>torch.linspace\<close> with RuntimeError when \<^verbatim>\<open>timesteps\<close> is negative,
  and when \<^verbatim>\<open>timesteps = 0\<close> it raises nothing and returns.
\<close>

theorem nonpositive_timesteps_no_round:
  assumes "timesteps < 1"
    and "batch_size_of h class_ids encoder_hidden_states = Inr batch_size"
  shows "generate2 cfg d input_ids class_ids encoder_hidden_states temperature timesteps
           guidance_scale noise_schedule generator h g
         = (Inl UnboundLocalError, shift_class_ids cfg class_ids h, g)
       \<and> (timesteps < 0 \<longrightarrow>
            generate cfg d input_ids class_ids encoder_hidden_states temperature
              topk_filter_thres timesteps guidance_scale noise_schedule h g
            = (Inl RuntimeError, shift_class_ids cfg class_ids h, g))
       \<and> (timesteps = 0 \<longrightarrow>
            \<not> isl (fst (generate cfg d input_ids class_ids encoder_hidden_states temperature
                          topk_filter_thres timesteps guidance_scale noise_schedule h g))
            \<and> snd (generate cfg d input_ids class_ids encoder_hidden_states temperature
                     topk_filter_thres timesteps guidance_scale noise_schedule h g)
              = (shift_class_ids cfg class_ids h, g)
            \<and> generate cfg d input_ids class_ids encoder_hidden_states temperature
                topk_filter_thres timesteps guidance_scale noise_schedule h g
              = generate cfg d' input_ids class_ids encoder_hidden_states temperature
                  topk_filter_thres timesteps guidance_scale noise_schedule h g)"
proof -
  have r: "py_range timesteps = []"
    using assms(1) by (simp add: py_range_def)
  show ?thesis
    using assms(2)
    by (auto simp add: generate2_def generate_def generate2_rounds_def r tiny_schedule_range)
qed

theorem nonpositive_timesteps_no_round_witness:
  "generate2 tiny_config tiny_deps (Some []) None (Some [[[1]]]) 1 0 0 linear_schedule None
      (\<lambda>a. []) 5 = (Inl UnboundLocalError, (\<lambda>a. []), 5)
   \<and> generate tiny_config tiny_deps (Some []) None (Some [[[1]]]) 1 (9 / 10) (- 1) 0
      linear_schedule (\<lambda>a. []) 5 = (Inl RuntimeError, (\<lambda>a. []), 5)
   \<and> \<not> isl (fst (generate tiny_config tiny_deps (Some []) None (Some [[[1]]]) 1 (9 / 10) 0 0
                   linear_schedule (\<lambda>a. []) 5))
   \<and> snd (generate tiny_config tiny_deps (Some []) None (Some [[[1]]]) 1 (9 / 10) 0 0
            linear_schedule (\<lambda>a. []) 5) = ((\<lambda>a. []), 5)
   \<and> generate tiny_config tiny_deps (Some []) None (Some [[[1]]]) 1 (9 / 10) 0 0
        linear_schedule (\<lambda>a. []) 5
     = generate tiny_config cond_deps (Some []) None (Some [[[1]]]) 1 (9 / 10) 0 0
        linear_schedule (\<lambda>a. []) 5"
proof -
  have b: "batch_size_of (\<lambda>a. []) None (Some [[[1]]]) = Inr (Suc 0)"
    by (simp add: batch_size_of_def)
  have s: "shift_class_ids tiny_config None (\<lambda>a. []) = (\<lambda>a. [])"
    by (simp add: shift_class_ids_def)
  have t0: "(0::int) < 1" and t1: "(- 1::int) < 1" by simp_all
  note zero = nonpositive_timesteps_no_round [OF t0 b, where cfg = tiny_config
        and d = tiny_deps and d' = cond_deps and input_ids = "Some []" and temperature = 1
        and guidance_scale = 0 and noise_schedule = linear_schedule and generator = None
        and g = 5 and topk_filter_thres = "9 / 10", unfolded s]
  note minus = nonpositive_timesteps_no_round [OF t1 b, where cfg = tiny_config
        and d = tiny_deps and d' = cond_deps and input_ids = "Some []" and temperature = 1
        and guidance_scale = 0 and noise_schedule = linear_schedule and generator = None
        and g = 5 and topk_filter_thres = "9 / 10", unfolded s]
  have g2: "generate2 tiny_config tiny_deps (Some []) None (Some [[[1]]]) 1 0 0 linear_schedule
              None (\<lambda>a. []) 5 = (Inl UnboundLocalError, (\<lambda>a. []), 5)"
    using zero by (rule conjunct1)
  have neg: "generate tiny_config tiny_deps (Some []) None (Some [[[1]]]) 1 (9 / 10) (- 1) 0
               linear_schedule (\<lambda>a. []) 5 = (Inl RuntimeError, (\<lambda>a. []), 5)"
    by (rule mp [OF minus [THEN conjunct2, THEN conjunct1]]) simp
  have ret: "\<not> isl (fst (generate tiny_config tiny_deps (Some []) None (Some [[[1]]]) 1
                           (9 / 10) 0 0 linear_schedule (\<lambda>a. []) 5))
             \<and> snd (generate tiny_config tiny_deps (Some []) None (Some [[[1]]]) 1 (9 / 10) 0 0
                      linear_schedule (\<lambda>a. []) 5) = ((\<lambda>a. []), 5)
             \<and> generate tiny_config tiny_deps (Some []) None (Some [[[1]]]) 1 (9 / 10) 0 0
                  linear_schedule (\<lambda>a. []) 5
               = generate tiny_config cond_deps (Some []) None (Some [[[1]]]) 1 (9 / 10) 0 0
                  linear_schedule (\<lambda>a. []) 5"
    by (rule mp [OF zero [THEN conjunct2, THEN conjunct2]]) simp
  show ?thesis
    using g2 neg ret by blast
qed

section \<open>Guidance scale zero\<close>

text \<open>
  Claim C4 as stated fails. With \<^verbatim>\<open>guidance_scale = 0\<close> the guard
  \<^verbatim>\<open>encoder_hidden_states is not None and guidance_scale > 0\<close> is false and the else branch
  runs the network once on the caller's embedding. For a network whose logits depend on
  the conditioning this differs from the pass on the zero embedding.
\<close>

theorem zero_guidance_counterexample:
  "guided_logits tiny_config cond_deps (Some [[3, 3]]) (Some [[[1]]]) 0
     = Inr [[[1, 1], [1, 1]]]
   \<and> (case forward tiny_config cond_deps (Some [[3, 3]]) (Some (zeros_like [[[1]]])) of
         Inl e \<Rightarrow> Inl e
       | Inr out \<Rightarrow> Inr (truncate_channels (codebook_size tiny_config) out))
     = Inr [[[0, 0], [0, 0]]]
   \<and> guided_logits tiny_config cond_deps (Some [[3, 3]]) (Some [[[1]]]) 0
     \<noteq> (case forward tiny_config cond_deps (Some [[3, 3]]) (Some (zeros_like [[[1]]])) of
         Inl e \<Rightarrow> Inl e
       | Inr out \<Rightarrow> Inr (truncate_channels (codebook_size tiny_config) out))"
  by (simp add: guided_logits_def forward_def cond_deps_def stub_deps_def cond_layers_def
        zeros_like_def truncate_channels_def tiny_config_def eval_nat_numeral)

text \<open>
  Claim C4, as the code has it. With text conditioning and a guidance scale that is not
  positive, the logits of a round are those of the single forward pass run with the
  caller's conditioning embedding, truncated to the first \<^verbatim>\<open>codebook_size\<close> channels; no
  pass on the zero embedding takes place.
\<close>

theorem zero_guidance_is_conditional_pass:
  assumes "guidance_scale \<le> 0"
  shows "guided_logits cfg d input_ids (Some enc) guidance_scale
         = (case forward cfg d input_ids (Some enc) of
              Inl e \<Rightarrow> Inl e
            | Inr out \<Rightarrow> Inr (truncate_channels (codebook_size cfg) out))"
  using assms by (simp add: guided_logits_def)

theorem zero_guidance_is_conditional_pass_witness:
  "guided_logits tiny_config cond_deps (Some [[3, 3]]) (Some [[[5]]]) 0
     = Inr [[[5, 5], [5, 5]]]"
  using zero_guidance_is_conditional_pass [of 0 tiny_config cond_deps "Some [[3, 3]]" "[[[5]]]"]
  by (simp add: forward_def cond_deps_def stub_deps_def cond_layers_def
        truncate_channels_def tiny_config_def eval_nat_numeral)

section \<open>The caller's class ids\<close>

lemma wrap_add_left:
  fixes x m n y :: int
  shows "(((x + m) mod n - m) + y + m) mod n = (x + y + m) mod n"
proof -
  have "((x + m) mod n - m) + y + m = (x + m) mod n + y" by simp
  then have "(((x + m) mod n - m) + y + m) mod n = ((x + m) mod n + y) mod n" by simp
  also have "\<dots> = (x + m + y) mod n" by (rule mod_add_left_eq)
  also have "x + m + y = x + y + m" by simp
  finally show ?thesis .
qed

lemma wrap64_add_left: "wrap64 (wrap64 x + y) = wrap64 (x + y)"
  unfolding wrap64_def using wrap_add_left [of x "2 ^ 63" "2 ^ 64" y] by simp

lemma wrap64_in_range: "- (2 ^ 63) \<le> x \<Longrightarrow> x < 2 ^ 63 \<Longrightarrow> wrap64 x = x"
  by (simp add: wrap64_def)

lemma wrap64_above:
  assumes "2 ^ 63 \<le> x" "x < 2 ^ 63 + 2 ^ 64"
  shows "wrap64 x = x - 2 ^ 64"
proof -
  have "(x + 2 ^ 63) mod 2 ^ 64 = x + 2 ^ 63 - 2 ^ 64"
    using assms by (intro int_mod_pos_eq [where q = 1]) simp_all
  then show ?thesis by (simp add: wrap64_def)
qed

lemma wrap64_shift_changes:
  assumes "- (2 ^ 63) \<le> c" "c < 2 ^ 63" "0 < k" "k < 2 ^ 63"
  shows "wrap64 (c + k) \<noteq> c"
proof (cases "c + k < 2 ^ 63")
  case True
  then have "wrap64 (c + k) = c + k"
    using assms by (intro wrap64_in_range) simp_all
  then show ?thesis using assms by simp
next
  case False
  then have "wrap64 (c + k) = c + k - 2 ^ 64"
    using assms by (intro wrap64_above) simp_all
  then show ?thesis using assms by simp
qed

lemma wrap64_twice: "wrap64 (wrap64 (c + k) + k) = wrap64 (c + 2 * k)"
proof -
  have "c + k + k = c + 2 * k" by simp
  then show ?thesis by (simp only: wrap64_add_left)
qed

lemma shift_twice:
  "map (\<lambda>c. wrap64 (c + k)) (map (\<lambda>c. wrap64 (c + k)) xs) = map (\<lambda>c. wrap64 (c + 2 * k)) xs"
  by (induction xs) (simp_all only: list.map wrap64_twice)

lemma generate_heap:
  "fst (snd (generate cfg d input_ids (Some a) ehs temperature topk_filter_thres timesteps
               guidance_scale noise_schedule h g))
     = h(a := map (\<lambda>c. wrap64 (c + int (codebook_size cfg))) (h a))"
  by (simp add: generate_def batch_size_of_def shift_class_ids_def Let_def
        split: prod.splits sum.splits)

lemma generate2_heap:
  "fst (snd (generate2 cfg d input_ids (Some a) ehs temperature timesteps guidance_scale
               noise_schedule generator h g))
     = h(a := map (\<lambda>c. wrap64 (c + int (codebook_size cfg))) (h a))"
  by (simp add: generate2_def batch_size_of_def shift_class_ids_def Let_def
        split: prod.splits sum.splits option.splits)

lemma generate2_class_rounds:
  "generate2 cfg d input_ids (Some a) ehs temperature timesteps guidance_scale noise_schedule
       generator h g
     = (case generate2_rounds cfg d input_ids
               (Some (map (\<lambda>c. wrap64 (c + int (codebook_size cfg))) (h a))) ehs temperature
               timesteps guidance_scale noise_schedule (length (h a)) (py_range timesteps) g of
          (Inl e, g') \<Rightarrow>
            (Inl e, h(a := map (\<lambda>c. wrap64 (c + int (codebook_size cfg))) (h a)), g')
        | (Inr st, g') \<Rightarrow>
            (case cur_sampled_ids st of
               None \<Rightarrow> (Inl UnboundLocalError,
                         h(a := map (\<lambda>c. wrap64 (c + int (codebook_size cfg))) (h a)), g')
             | Some sampled_ids \<Rightarrow>
                 (Inr sampled_ids,
                  h(a := map (\<lambda>c. wrap64 (c + int (codebook_size cfg))) (h a)), g')))"
  by (simp add: generate2_def batch_size_of_def shift_class_ids_def Let_def)

text \<open>
  Claim C10. Let the caller's \<^verbatim>\<open>class_ids\<close> tensor hold 64-bit integers and let the codebook
  size be positive and fit 64 bits. A call of \<^verbatim>\<open>generate\<close> or \<^verbatim>\<open>generate2\<close> with that tensor
  leaves it with \<^verbatim>\<open>codebook_size\<close> added to every element in 64-bit arithmetic, whether the
  call returns or raises, and leaves every other tensor alone; every element differs from
  what it was. After a second call with the same tensor the elements are shifted by twice
  the codebook size, and the rounds of that second call run with the twice-shifted ids as
  their class tokens. As long as the twice-shifted ids stay below \<open>2 ^ 63\<close> the additions
  are the plain integer ones.
\<close>

theorem class_ids_shifted_in_place:
  assumes "int64_tensor (h a)" and "0 < codebook_size cfg"
    and "int (codebook_size cfg) < 2 ^ 63"
  shows "fst (snd (generate cfg d input_ids (Some a) ehs temperature topk_filter_thres timesteps
               guidance_scale noise_schedule h g))
     = h(a := map (\<lambda>c. wrap64 (c + int (codebook_size cfg))) (h a))
   \<and> fst (snd (generate2 cfg d input_ids (Some a) ehs temperature timesteps guidance_scale
               noise_schedule generator h g))
     = h(a := map (\<lambda>c. wrap64 (c + int (codebook_size cfg))) (h a))
   \<and> (\<forall>i < length (h a).
         map (\<lambda>c. wrap64 (c + int (codebook_size cfg))) (h a) ! i \<noteq> h a ! i)
   \<and> fst (snd (generate cfg d input_ids (Some a) ehs temperature topk_filter_thres timesteps
               guidance_scale noise_schedule
               (fst (snd (generate cfg d input_ids (Some a) ehs temperature topk_filter_thres
                            timesteps guidance_scale noise_schedule h g))) g')) a
     = map (\<lambda>c. wrap64 (c + 2 * int (codebook_size cfg))) (h a)
   \<and> (let h1 = fst (snd (generate2 cfg d input_ids (Some a) ehs temperature timesteps
                            guidance_scale noise_schedule generator h g));
           h2 = h(a := map (\<lambda>c. wrap64 (c + 2 * int (codebook_size cfg))) (h a))
       in generate2 cfg d input_ids (Some a) ehs temperature timesteps guidance_scale
            noise_schedule generator h1 g'
          = (case generate2_rounds cfg d input_ids
                    (Some (map (\<lambda>c. wrap64 (c + 2 * int (codebook_size cfg))) (h a))) ehs
                    temperature timesteps guidance_scale noise_schedule (length (h a))
                    (py_range timesteps) g' of
               (Inl e, g'') \<Rightarrow> (Inl e, h2, g'')
             | (Inr st, g'') \<Rightarrow>
                 (case cur_sampled_ids st of
                    None \<Rightarrow> (Inl UnboundLocalError, h2, g'')
                  | Some sampled_ids \<Rightarrow> (Inr sampled_ids, h2, g''))))
   \<and> ((\<forall>c\<in>set (h a). c + 2 * int (codebook_size cfg) < 2 ^ 63) \<longrightarrow>
        map (\<lambda>c. wrap64 (c + int (codebook_size cfg))) (h a)
          = map (\<lambda>c. c + int (codebook_size cfg)) (h a)
        \<and> map (\<lambda>c. wrap64 (c + 2 * int (codebook_size cfg))) (h a)
          = map (\<lambda>c. c + 2 * int (codebook_size cfg)) (h a))"
proof -
  let ?k = "int (codebook_size cfg)"
  let ?h1 = "h(a := map (\<lambda>c. wrap64 (c + ?k)) (h a))"
  have k: "0 < ?k" using assms(2) by simp
  have rng: "- (2 ^ 63) \<le> c \<and> c < 2 ^ 63" if "c \<in> set (h a)" for c
    using assms(1) that by (simp add: int64_tensor_def)
  have changed: "\<forall>i < length (h a). map (\<lambda>c. wrap64 (c + ?k)) (h a) ! i \<noteq> h a ! i"
  proof (intro allI impI)
    fix i assume i: "i < length (h a)"
    then have "h a ! i \<in> set (h a)" by simp
    from rng [OF this] have "wrap64 (h a ! i + ?k) \<noteq> h a ! i"
      using k assms(3) by (intro wrap64_shift_changes) simp_all
    then show "map (\<lambda>c. wrap64 (c + ?k)) (h a) ! i \<noteq> h a ! i"
      using i by simp
  qed
  have third: "(?h1(a := map (\<lambda>c. wrap64 (c + ?k)) (?h1 a))) a
                 = map (\<lambda>c. wrap64 (c + 2 * ?k)) (h a)"
    by (simp only: fun_upd_same shift_twice)
  have second: "generate2 cfg d input_ids (Some a) ehs temperature timesteps guidance_scale
                  noise_schedule generator ?h1 g'
        = (case generate2_rounds cfg d input_ids
                  (Some (map (\<lambda>c. wrap64 (c + 2 * ?k)) (h a))) ehs temperature
                  timesteps guidance_scale noise_schedule (length (h a))
                  (py_range timesteps) g' of
             (Inl e, g'') \<Rightarrow>
               (Inl e, h(a := map (\<lambda>c. wrap64 (c + 2 * ?k)) (h a)), g'')
           | (Inr st, g'') \<Rightarrow>
               (case cur_sampled_ids st of
                  None \<Rightarrow> (Inl UnboundLocalError,
                            h(a := map (\<lambda>c. wrap64 (c + 2 * ?k)) (h a)), g'')
                | Some sampled_ids \<Rightarrow>
                    (Inr sampled_ids,
                     h(a := map (\<lambda>c. wrap64 (c + 2 * ?k)) (h a)), g'')))"
  proof -
    have e2: "map (\<lambda>c. wrap64 (c + ?k)) (?h1 a) = map (\<lambda>c. wrap64 (c + 2 * ?k)) (h a)"
      by (simp only: fun_upd_same shift_twice)
    have e1: "?h1(a := map (\<lambda>c. wrap64 (c + 2 * ?k)) (h a))
                = h(a := map (\<lambda>c. wrap64 (c + 2 * ?k)) (h a))"
      by (simp only: fun_upd_upd)
    have e3: "length (?h1 a) = length (h a)"
      by simp
    show ?thesis
      unfolding generate2_class_rounds [of cfg d input_ids a ehs temperature timesteps
          guidance_scale noise_schedule generator ?h1 g'] e2 e1 e3 ..
  qed
  have plain: "map (\<lambda>c. wrap64 (c + ?k)) (h a) = map (\<lambda>c. c + ?k) (h a)
             \<and> map (\<lambda>c. wrap64 (c + 2 * ?k)) (h a) = map (\<lambda>c. c + 2 * ?k) (h a)"
    if small: "\<forall>c\<in>set (h a). c + 2 * ?k < 2 ^ 63"
  proof (intro conjI map_cong refl)
    fix c assume c: "c \<in> set (h a)"
    from rng [OF c] small c k show "wrap64 (c + ?k) = c + ?k"
      by (intro wrap64_in_range) auto
    from rng [OF c] small c k show "wrap64 (c + 2 * ?k) = c + 2 * ?k"
      by (intro wrap64_in_range) auto
  qed
  show ?thesis
    unfolding Let_def generate_heap generate2_heap
    using second third changed plain by simp
qed

theorem class_ids_shifted_in_place_witness:
  "int64_tensor [9223372036854775807, 0]
   \<and> fst (snd (generate2 tiny_config tiny_deps (Some []) (Some 0) None 1 1 0 linear_schedule
                 None (\<lambda>a. [9223372036854775807, 0]) 0))
     = (\<lambda>a. [9223372036854775807, 0])(0 := [- 9223372036854775807, 2])
   \<and> fst (snd (generate tiny_config tiny_deps (Some []) (Some 0) None 1 (9 / 10) 2 0
                 linear_schedule (\<lambda>a. [9223372036854775807, 0]) 0))
     = (\<lambda>a. [9223372036854775807, 0])(0 := [- 9223372036854775807, 2])"
proof -
  have t: "int64_tensor ((\<lambda>a. [9223372036854775807, 0]) (0::nat))"
    by (simp add: int64_tensor_def)
  have c: "0 < codebook_size tiny_config" "int (codebook_size tiny_config) < 2 ^ 63"
    by (simp_all add: tiny_config_def)
  show ?thesis
    using class_ids_shifted_in_place [OF t c, where d = tiny_deps and input_ids = "Some []"
        and ehs = None and temperature = 1 and topk_filter_thres = "9 / 10"
        and guidance_scale = 0 and noise_schedule = linear_schedule and generator = None
        and g = 0 and timesteps = 2, THEN conjunct1]
      class_ids_shifted_in_place [OF t c, where d = tiny_deps and input_ids = "Some []"
        and ehs = None and temperature = 1 and topk_filter_thres = "9 / 10"
        and guidance_scale = 0 and noise_schedule = linear_schedule and generator = None
        and g = 0 and timesteps = 1, THEN conjunct2, THEN conjunct1]
    by (simp add: int64_tensor_def wrap64_def tiny_config_def)
qed

section \<open>The decode loops keep the grid within the codebook\<close>

lemma grid_shape_nth:
  "grid_shape b n x \<longleftrightarrow> length x = b \<and> (\<forall>i<b. length (x ! i) = n)"
  by (auto simp add: grid_shape_def all_set_conv_all_nth)

lemma grid_shape_map2:
  assumes "grid_shape b n a" "grid_shape b n c"
  shows "grid_shape b n (map2 (map2 f) a c)"
  using assms by (simp add: grid_shape_nth)

lemma grid_shape_map_map:
  "grid_shape b n a \<Longrightarrow> grid_shape b n (map (map f) a)"
  by (simp add: grid_shape_nth)

lemma grid_shape_where2:
  assumes "grid_shape b n c" "grid_shape b n a" "grid_shape b n x"
  shows "grid_shape b n (where2 c a x)"
  using assms by (simp add: grid_shape_nth where2_def where_row_def)

lemma scatter_row_length: "length (scatter_row row idxs v) = length row"
  unfolding scatter_row_def by (induction idxs arbitrary: row) simp_all

lemma scatter_row_set: "set (scatter_row row idxs v) \<subseteq> insert v (set row)"
  unfolding scatter_row_def
proof (induction idxs arbitrary: row)
  case Nil
  then show ?case by auto
next
  case (Cons i idxs)
  have "set (fold (\<lambda>i r. r[i := v]) idxs (row[i := v])) \<subseteq> insert v (set (row[i := v]))"
    using Cons.IH .
  moreover have "set (row[i := v]) \<subseteq> insert v (set row)"
    by (rule set_update_subset_insert)
  ultimately show ?case by auto
qed

lemma grid_shape_prepend:
  assumes "grid_shape b n x" "length c = b"
  shows "grid_shape b (Suc n) (prepend_class c x)" and "map tl (prepend_class c x) = x"
  using assms
  by (auto simp add: grid_shape_nth prepend_class_def intro: nth_equalityI)


lemma codebook_or_mask_scatter:
  assumes "codebook_or_mask cfg x"
  shows "codebook_or_mask cfg
           (map2 (\<lambda>row sc. scatter_row row (f sc) (mask_token_id cfg)) x scores)"
  unfolding codebook_or_mask_def
proof (intro ballI)
  fix row t
  assume "row \<in> set (map2 (\<lambda>row sc. scatter_row row (f sc) (mask_token_id cfg)) x scores)"
    and t: "t \<in> set row"
  then obtain r sc where r: "r \<in> set x" and row: "row = scatter_row r (f sc) (mask_token_id cfg)"
    by (auto dest: set_zip_leftD)
  from t row have "t = mask_token_id cfg \<or> t \<in> set r"
    using scatter_row_set [of r "f sc" "mask_token_id cfg"] by auto
  with assms r show "t = mask_token_id cfg \<or> 0 \<le> t \<and> t < int (codebook_size cfg)"
    by (auto simp add: codebook_or_mask_def)
qed

lemma where_row_eq_mask:
  assumes "\<forall>t\<in>set a. 0 \<le> t \<and> t < int (codebook_size cfg)"
    and "\<forall>t\<in>set r. t = mask_token_id cfg \<or> (0 \<le> t \<and> t < int (codebook_size cfg))"
    and "t \<in> set (where_row (map (\<lambda>t. t = mask_token_id cfg) r) a r)"
  shows "0 \<le> t \<and> t < int (codebook_size cfg)"
proof -
  from assms(3) obtain m p q where mem: "(m, p, q) \<in> set (zip (map (\<lambda>t. t = mask_token_id cfg) r) (zip a r))"
    and t: "t = (if m then p else q)"
    by (auto simp add: where_row_def)
  from mem obtain k where k: "k < length r" "k < length a"
    and m: "m = (r ! k = mask_token_id cfg)" and p: "p = a ! k" and q: "q = r ! k"
    by (auto simp add: in_set_zip)
  show ?thesis
  proof (cases m)
    case True
    then have "t = a ! k" using t p by simp
    then show ?thesis using assms(1) k by simp
  next
    case False
    then have "t = r ! k" "r ! k \<noteq> mask_token_id cfg" using t q m by simp_all
    then show ?thesis using assms(2) k by (metis nth_mem)
  qed
qed

lemma in_codebook_where2:
  assumes "in_codebook cfg a" "codebook_or_mask cfg x"
  shows "in_codebook cfg (where2 (eq_mask cfg x) a x)"
  unfolding in_codebook_def
proof (intro ballI)
  fix row t
  assume "row \<in> set (where2 (eq_mask cfg x) a x)" and t: "t \<in> set row"
  then obtain m p q where mem: "(m, p, q) \<in> set (zip (eq_mask cfg x) (zip a x))"
    and row: "row = where_row m p q"
    by (auto simp add: where2_def)
  from mem obtain k where k: "k < length x" "k < length a"
    and m: "m = eq_mask cfg x ! k" and p: "p = a ! k" and q: "q = x ! k"
    by (auto simp add: in_set_zip eq_mask_def)
  have m': "m = map (\<lambda>t. t = mask_token_id cfg) q"
    using m q k by (simp add: eq_mask_def)
  have pa: "\<forall>t\<in>set p. 0 \<le> t \<and> t < int (codebook_size cfg)"
    using assms(1) p k nth_mem [of k a] by (auto simp add: in_codebook_def)
  have qa: "\<forall>t\<in>set q. t = mask_token_id cfg \<or> (0 \<le> t \<and> t < int (codebook_size cfg))"
    using assms(2) q k nth_mem [of k x] by (auto simp add: codebook_or_mask_def)
  show "0 \<le> t \<and> t < int (codebook_size cfg)"
    using where_row_eq_mask [OF pa qa] t row m' by simp
qed

lemma codebook_or_mask_remask:
  assumes "in_codebook cfg s"
  shows "codebook_or_mask cfg (map2 (map2 (\<lambda>m t. if m then mask_token_id cfg else t)) msk s)"
  unfolding codebook_or_mask_def
proof (intro ballI)
  fix row t
  assume "row \<in> set (map2 (map2 (\<lambda>m t. if m then mask_token_id cfg else t)) msk s)"
    and t: "t \<in> set row"
  then obtain mr sr where sr: "sr \<in> set s"
    and row: "row = map2 (\<lambda>m t. if m then mask_token_id cfg else t) mr sr"
    by (auto dest: set_zip_rightD)
  from t row obtain m u where u: "u \<in> set sr" and "t = (if m then mask_token_id cfg else u)"
    by (auto dest: set_zip_rightD)
  with assms sr show "t = mask_token_id cfg \<or> 0 \<le> t \<and> t < int (codebook_size cfg)"
    by (auto simp add: in_codebook_def)
qed

lemma in_codebook_mask_free:
  assumes "config_ok cfg" "in_codebook cfg x"
  shows "mask_free cfg x"
  using assms by (fastforce simp add: config_ok_def in_codebook_def mask_free_def mask_token_id_def)

lemma in_codebook_imp_or_mask: "in_codebook cfg x \<Longrightarrow> codebook_or_mask cfg x"
  by (simp add: in_codebook_def codebook_or_mask_def)

lemma all_mask_codebook_or_mask:
  "codebook_or_mask cfg (replicate b (replicate n (mask_token_id cfg)))"
  by (simp add: codebook_or_mask_def)

lemma grid_shape_replicate: "grid_shape b n (replicate b (replicate n v))"
  by (simp add: grid_shape_def)


lemma logits_shape_nth:
  "logits_shape b n c l \<longleftrightarrow>
     length l = b \<and> (\<forall>i<b. length (l ! i) = n \<and> (\<forall>j<n. length (l ! i ! j) = c))"
  by (auto simp add: logits_shape_def grid_shape_def all_set_conv_all_nth)

lemma logits_shape_truncate:
  assumes "logits_shape b n v l" "c \<le> v"
  shows "logits_shape b n c (truncate_channels c l)"
  using assms by (simp add: logits_shape_nth truncate_channels_def)

lemma logits_shape_chunks:
  assumes "logits_shape (b + b) n v l"
  shows "logits_shape b n v (take b l)" and "logits_shape b n v (drop b l)"
  using assms by (simp_all add: logits_shape_nth)

lemma logits_shape_mix:
  assumes "logits_shape b n c a" "logits_shape b n c u"
  shows "logits_shape b n c (guidance_mix s a u)"
  using assms by (simp add: logits_shape_nth guidance_mix_def mix_row_def)

lemma logits_shape_tl:
  assumes "logits_shape b (Suc n) c l"
  shows "logits_shape b n c (map tl l)"
  using assms by (simp add: logits_shape_nth nth_tl)

lemma grid_shape_append: "grid_shape b n x \<Longrightarrow> grid_shape (b + b) n (x @ x)"
  by (auto simp add: grid_shape_def)

lemma guided_logits_shape:
  assumes ok: "layers_ok cfg d" and cfg: "config_ok cfg" and x: "grid_shape b n x"
    and res: "guided_logits cfg d (Some x) ehs guidance_scale = Inr l"
  shows "logits_shape b n (codebook_size cfg) l"
proof -
  have le: "codebook_size cfg \<le> nat (vocab_size cfg)"
    using cfg unfolding config_ok_def by linarith
  have net: "logits_shape b' n' (nat (vocab_size cfg)) (layers d y e)"
    if "grid_shape b' n' y" for b' n' y e
    using ok that by (simp add: layers_ok_def)
  show ?thesis
  proof (cases "ehs \<noteq> None \<and> guidance_scale > 0")
    case True
    then obtain enc where enc: "ehs = Some enc" by auto
    let ?out = "layers d (x @ x) (Some (enc @ zeros_like enc))"
    have out: "logits_shape (b + b) n (nat (vocab_size cfg)) ?out"
      using net [OF grid_shape_append [OF x]] .
    then have len: "length ?out = b + b"
      by (simp add: logits_shape_nth)
    have half: "Suc (length ?out) div 2 = b"
      using len by simp
    from res True enc have
      l: "l = guidance_mix guidance_scale
                    (truncate_channels (codebook_size cfg) (take b ?out))
                    (truncate_channels (codebook_size cfg) (drop b ?out))"
      by (auto simp add: guided_logits_def forward_def chunk2_def half
            split: if_splits)
    show ?thesis
      unfolding l
      by (intro logits_shape_mix logits_shape_truncate [OF _ le] logits_shape_chunks [OF out])
  next
    case False
    with res have l: "l = truncate_channels (codebook_size cfg) (layers d x ehs)"
      by (auto simp add: guided_logits_def forward_def split: if_splits)
    show ?thesis
      unfolding l by (intro logits_shape_truncate [OF _ le] net [OF x])
  qed
qed

lemma guided_logits_None: "guided_logits cfg d None ehs guidance_scale \<noteq> Inr l"
  by (auto simp add: guided_logits_def forward_def split: option.splits)

lemma sample_batch_shape:
  assumes ok: "multinomial_ok d" and c: "0 < c" and l: "logits_shape b n c l"
  shows "grid_shape b n (fst (sample_batch (multinomial d) l g))
       \<and> (\<forall>row\<in>set (fst (sample_batch (multinomial d) l g)).
             \<forall>i\<in>set row. 0 \<le> i \<and> i < int c)"
  using l
proof (induction l arbitrary: b g)
  case Nil
  then show ?case by (simp add: logits_shape_def grid_shape_def)
next
  case (Cons e es)
  from Cons.prems obtain b' where b: "b = Suc b'" and es: "logits_shape b' n c es"
    and e: "length e = n" "\<forall>v\<in>set e. length v = c"
    by (cases b) (auto simp add: logits_shape_def grid_shape_def)
  have probs: "length (map softmax e) = n" "\<forall>p\<in>set (map softmax e). length p = c"
    using e by (auto simp add: softmax_def)
  from ok c probs have draw: "length (fst (multinomial d (map softmax e) g)) = n"
    "\<forall>i\<in>set (fst (multinomial d (map softmax e) g)). 0 \<le> i \<and> i < int c"
    unfolding multinomial_ok_def by blast+
  from Cons.IH [OF es, of "snd (multinomial d (map softmax e) g)"] draw b
  show ?case
    by (auto simp add: Let_def grid_shape_def)
qed


lemma logits_shape_grid: "logits_shape b n c l \<Longrightarrow> grid_shape b n l"
  by (simp add: logits_shape_def)

lemma grid_shape_eq_mask: "grid_shape b n x \<Longrightarrow> grid_shape b n (eq_mask cfg x)"
  by (simp add: eq_mask_def grid_shape_map_map)

lemma grid_shape_gather:
  "grid_shape b n probs \<Longrightarrow> grid_shape b n x \<Longrightarrow> grid_shape b n (gather_probs probs x)"
  by (simp add: gather_probs_def grid_shape_map2)

lemma generate2_update_inv:
  assumes mul: "multinomial_ok d" and msk: "mask_by_random_topk_ok d" and cfg: "config_ok cfg"
    and x: "grid_shape b n x" "codebook_or_mask cfg x"
    and l: "logits_shape b n (codebook_size cfg) l"
    and res: "generate2_update cfg d timesteps noise_schedule step temperature x l g = (st', g')"
  shows "\<exists>x' s. cur_input_ids st' = Some x' \<and> grid_shape b n x' \<and> codebook_or_mask cfg x'
           \<and> cur_sampled_ids st' = Some s \<and> grid_shape b n s \<and> in_codebook cfg s"
proof -
  let ?drawn = "fst (sample_batch (multinomial d) l g)"
  let ?s = "where2 (eq_mask cfg x) ?drawn x"
  have c: "0 < codebook_size cfg"
    using cfg by (simp add: config_ok_def)
  have drawn: "grid_shape b n ?drawn" "in_codebook cfg ?drawn"
    using sample_batch_shape [OF mul c l, of g] by (simp_all add: in_codebook_def)
  have s: "grid_shape b n ?s" "in_codebook cfg ?s"
    using grid_shape_where2 [OF grid_shape_eq_mask [OF x(1)] drawn(1) x(1)]
      in_codebook_where2 [OF drawn(2) x(2)] by simp_all
  have probs: "grid_shape b n (map (map softmax) l)"
    using logits_shape_grid [OF l] by (rule grid_shape_map_map)
  let ?sp = "map2 (map2 (\<lambda>u p. if u then p else finfo_max)) (eq_mask cfg x)
               (gather_probs (map (map softmax) l) ?s)"
  have sp: "grid_shape b n ?sp"
    by (intro grid_shape_map2 grid_shape_eq_mask x(1) grid_shape_gather probs s(1))
  have masked: "grid_shape b n (fst (mask_by_random_topk d ml ?sp t gg))"
    if "length ml = b" for ml t gg
    using msk sp that unfolding mask_by_random_topk_ok_def by blast
  from res obtain ml t gg where ml: "ml = map (mask_len_row (num_vq_tokens cfg) t) (eq_mask cfg x)"
    and st': "cur_sampled_ids st' = Some ?s"
      "cur_input_ids st' = Some (map2 (map2 (\<lambda>m s. if m then mask_token_id cfg else s))
                                   (fst (mask_by_random_topk d ml ?sp
                                           (temperature * (1 - gg)) (snd (sample_batch (multinomial d) l g)))) ?s)"
    by (auto simp add: generate2_update_def Let_def)
  have "length ml = b"
    using ml x(1) by (simp add: eq_mask_def grid_shape_def)
  then show ?thesis
    using st' s grid_shape_map2 [OF masked s(1)] codebook_or_mask_remask [OF s(2)]
    by simp
qed

lemma generate_update_inv:
  assumes tk: "top_k_ok d" and gs: "gumbel_sample_ok d" and cfg: "config_ok cfg"
    and x: "grid_shape b n x" "codebook_or_mask cfg x"
    and l: "logits_shape b n (codebook_size cfg) l"
    and res: "generate_update cfg d starting_temperature thres timesteps steps x l g = (st', g')"
  shows "\<exists>x' sc. st' = (Some x', sc) \<and> grid_shape b n x' \<and> in_codebook cfg x'
           \<and> grid_shape b n sc"
proof -
  have c: "0 < codebook_size cfg"
    using cfg by (simp add: config_ok_def)
  let ?f = "top_k d l thres"
  have f: "logits_shape b n (codebook_size cfg) ?f"
    using tk l unfolding top_k_ok_def by blast
  have pred: "grid_shape b n (fst (gumbel_sample d ?f t g))"
    "in_codebook cfg (fst (gumbel_sample d ?f t g))" for t
    using gs c f unfolding gumbel_sample_ok_def in_codebook_def by blast+
  have probs: "grid_shape b n (map (map softmax) l)"
    using logits_shape_grid [OF l] by (rule grid_shape_map_map)
  from res obtain t where
    st': "st' = (Some (where2 (eq_mask cfg x) (fst (gumbel_sample d ?f t g)) x),
                 map (map (\<lambda>p. 1 - p))
                   (gather_probs (map (map softmax) l) (fst (gumbel_sample d ?f t g))))"
    by (auto simp add: generate_update_def Let_def)
  show ?thesis
    unfolding st'
    using grid_shape_where2 [OF grid_shape_eq_mask [OF x(1)] pred(1) x(1)]
      in_codebook_where2 [OF pred(2) x(2)]
      grid_shape_map_map [OF grid_shape_gather [OF probs pred(1)]]
    by simp
qed


lemma grid_shape_scatter:
  assumes "grid_shape b n x" "length scores = b"
  shows "grid_shape b n (map2 (\<lambda>row sc. scatter_row row (f sc) v) x scores)"
  using assms by (simp add: grid_shape_nth scatter_row_length)

lemma pair_result: "(Inr (fst r), snd r) = (Inr a, b) \<longleftrightarrow> r = (a, b)"
  by (cases r) simp

lemma generate2_round_inv:
  assumes net: "layers_ok cfg d" and mul: "multinomial_ok d" and msk: "mask_by_random_topk_ok d"
    and cfg: "config_ok cfg"
    and cls: "\<forall>c. class_ids = Some c \<longrightarrow> length c = b"
    and inv: "cur_input_ids st = Some x" "grid_shape b (num_vq_tokens cfg) x"
      "codebook_or_mask cfg x"
    and res: "generate2_round cfg d class_ids ehs timesteps guidance_scale noise_schedule step
                st g = (Inr st', g')"
  shows "\<exists>x' s. cur_input_ids st' = Some x' \<and> grid_shape b (num_vq_tokens cfg) x'
           \<and> codebook_or_mask cfg x'
           \<and> cur_sampled_ids st' = Some s \<and> grid_shape b (num_vq_tokens cfg) s
           \<and> in_codebook cfg s"
proof (cases class_ids)
  case None
  from res inv(1) None obtain l0 where
    l0: "guided_logits cfg d (Some x) ehs guidance_scale = Inr l0"
    and upd: "generate2_update cfg d timesteps noise_schedule step (cur_temperature st) x l0 g
                = (st', g')"
    by (auto simp add: generate2_round_def Let_def pair_result split: sum.splits if_splits)
  show ?thesis
    using generate2_update_inv [OF mul msk cfg inv(2,3)
        guided_logits_shape [OF net cfg inv(2) l0] upd] .
next
  case (Some c)
  then have len: "length c = b" using cls by simp
  note pre = grid_shape_prepend [OF inv(2) len]
  from res inv(1) Some pre(2) obtain l0 where
    l0: "guided_logits cfg d (Some (prepend_class c x)) ehs guidance_scale = Inr l0"
    and upd: "generate2_update cfg d timesteps noise_schedule step (cur_temperature st) x
                (map tl l0) g = (st', g')"
    by (auto simp add: generate2_round_def Let_def pair_result split: sum.splits if_splits)
  show ?thesis
    using generate2_update_inv [OF mul msk cfg inv(2,3)
        logits_shape_tl [OF guided_logits_shape [OF net cfg pre(1) l0]] upd] .
qed

lemma generate_round_inv:
  assumes net: "layers_ok cfg d" and tk: "top_k_ok d" and gs: "gumbel_sample_ok d"
    and cfg: "config_ok cfg"
    and cls: "\<forall>c. class_ids = Some c \<longrightarrow> length c = b"
    and inv: "fst st = Some x" "grid_shape b (num_vq_tokens cfg) x" "codebook_or_mask cfg x"
      "grid_shape b (num_vq_tokens cfg) (snd st)"
    and res: "generate_round cfg d class_ids ehs starting_temperature thres timesteps
                guidance_scale noise_schedule ts st g = (Inr st', g')"
  shows "\<exists>x' sc. st' = (Some x', sc) \<and> grid_shape b (num_vq_tokens cfg) x'
           \<and> in_codebook cfg x' \<and> grid_shape b (num_vq_tokens cfg) sc"
proof -
  let ?k = "max (py_int (noise_schedule (fst ts) * real (num_vq_tokens cfg))) 1"
  let ?x1 = "map2 (\<lambda>row sc. scatter_row row (topk_indices d sc (nat ?k)) (mask_token_id cfg))
               x (snd st)"
  have len: "length (snd st) = b"
    using inv(4) by (simp add: grid_shape_def)
  have x1: "grid_shape b (num_vq_tokens cfg) ?x1"
    using grid_shape_scatter [OF inv(2) len] .
  have x1v: "codebook_or_mask cfg ?x1"
    using codebook_or_mask_scatter [OF inv(3)] .
  show ?thesis
  proof (cases class_ids)
    case None
    from res inv(1) None obtain l0 where
      l0: "guided_logits cfg d (Some ?x1) ehs guidance_scale = Inr l0"
      and upd: "generate_update cfg d starting_temperature thres timesteps (snd ts) ?x1 l0 g
                  = (st', g')"
      by (auto simp add: generate_round_def Let_def pair_result split: sum.splits if_splits)
    show ?thesis
      using generate_update_inv [OF tk gs cfg x1 x1v
          guided_logits_shape [OF net cfg x1 l0] upd] .
  next
    case (Some c)
    then have lc: "length c = b" using cls by simp
    note pre = grid_shape_prepend [OF x1 lc]
    from res inv(1) Some pre(2) obtain l0 where
      l0: "guided_logits cfg d (Some (prepend_class c ?x1)) ehs guidance_scale = Inr l0"
      and upd: "generate_update cfg d starting_temperature thres timesteps (snd ts) ?x1
                  (map tl l0) g = (st', g')"
      by (auto simp add: generate_round_def Let_def pair_result split: sum.splits if_splits)
    show ?thesis
      using generate_update_inv [OF tk gs cfg x1 x1v
          logits_shape_tl [OF guided_logits_shape [OF net cfg pre(1) l0]] upd] .
  qed
qed


lemma for_loop_invariant:
  assumes "for_loop body xs st g = (Inr st', g')" and "P st"
    and "\<And>i s g s' g'. P s \<Longrightarrow> body i s g = (Inr s', g') \<Longrightarrow> P s'"
  shows "P st'"
  using assms(1,2)
proof (induction xs arbitrary: st g)
  case Nil
  then show ?case by simp
next
  case (Cons i xs)
  from Cons.prems(1) obtain s1 g1 where b: "body i st g = (Inr s1, g1)"
    and rest: "for_loop body xs s1 g1 = (Inr st', g')"
    by (auto split: prod.splits sum.splits)
  show ?case
    using Cons.IH [OF rest assms(3) [OF Cons.prems(2) b]] .
qed

lemma for_loop_post:
  assumes "for_loop body xs st g = (Inr st', g')" and "xs \<noteq> []" and "P st"
    and "\<And>i s g s' g'. P s \<Longrightarrow> body i s g = (Inr s', g') \<Longrightarrow> Q s'"
    and "\<And>s. Q s \<Longrightarrow> P s"
  shows "Q st'"
proof -
  from assms(2) obtain i js where xs: "xs = i # js"
    by (cases xs) auto
  from assms(1) xs obtain s1 g1 where b: "body i st g = (Inr s1, g1)"
    and rest: "for_loop body js s1 g1 = (Inr st', g')"
    by (auto split: prod.splits sum.splits)
  have "Q s1" using assms(4) [OF assms(3) b] .
  then show ?thesis
    using for_loop_invariant [OF rest, of Q] assms(4,5) by blast
qed

lemma py_range_nonempty: "1 \<le> timesteps \<Longrightarrow> py_range timesteps \<noteq> []"
  by (simp add: py_range_def)

lemma schedule_zip_nonempty:
  "1 \<le> timesteps \<Longrightarrow> zip (linspace01 (nat timesteps)) (reversed_range (nat timesteps)) \<noteq> []"
  by (cases "nat timesteps") (simp_all add: linspace01_def reversed_range_def upt_rec)

lemma generate2_rounds_post:
  assumes net: "layers_ok cfg d" and mul: "multinomial_ok d" and msk: "mask_by_random_topk_ok d"
    and cfg: "config_ok cfg"
    and cls: "\<forall>c. class_ids = Some c \<longrightarrow> length c = b"
    and steps: "steps \<noteq> []"
    and res: "generate2_rounds cfg d input_ids class_ids ehs temperature timesteps
                guidance_scale noise_schedule b steps g = (Inr st', g')"
  shows "\<exists>s. cur_sampled_ids st' = Some s \<and> grid_shape b (num_vq_tokens cfg) s
           \<and> in_codebook cfg s"
proof -
  let ?P = "\<lambda>st. \<exists>x. cur_input_ids st = Some x \<and> grid_shape b (num_vq_tokens cfg) x
                    \<and> codebook_or_mask cfg x"
  let ?Q = "\<lambda>st. ?P st \<and> (\<exists>s. cur_sampled_ids st = Some s
                    \<and> grid_shape b (num_vq_tokens cfg) s \<and> in_codebook cfg s)"
  let ?body = "generate2_round cfg d class_ids ehs timesteps guidance_scale noise_schedule"
  let ?st0 = "\<lparr>cur_input_ids = init_input_ids cfg b input_ids, cur_sampled_ids = None,
               cur_temperature = temperature\<rparr>"
  from steps obtain i js where st: "steps = i # js" by (cases steps) auto
  have loop: "for_loop ?body steps ?st0 g = (Inr st', g')"
    using res by (simp add: generate2_rounds_def)
  have some: "input_ids \<noteq> None"
  proof
    assume "input_ids = None"
    then have "cur_input_ids ?st0 = None" by (simp add: init_input_ids_def)
    then have "\<exists>e. ?body i ?st0 g = (Inl e, g)"
      using guided_logits_None [of cfg d ehs guidance_scale]
      by (auto simp add: generate2_round_def split: option.splits sum.splits)
    with loop st show False by auto
  qed
  then have p0: "?P ?st0"
    by (auto simp add: init_input_ids_def grid_shape_replicate all_mask_codebook_or_mask)
  have step: "?Q s'" if "?P s" "?body i s g = (Inr s', g')" for i s g s' g'
  proof -
    from that(1) obtain x where x: "cur_input_ids s = Some x"
      "grid_shape b (num_vq_tokens cfg) x" "codebook_or_mask cfg x" by blast
    show ?thesis
      using generate2_round_inv [OF net mul msk cfg cls x that(2)] by blast
  qed
  have "?Q st'"
  proof (rule for_loop_post [where P = ?P and Q = ?Q and body = ?body, OF loop steps p0])
    show "?Q s'" if "?P s" "?body i s g = (Inr s', g')" for i s g s' g'
      using step [OF that] .
    show "?P s" if "?Q s" for s
      using that by blast
  qed
  then show ?thesis by blast
qed

lemma generate_loop_post:
  assumes net: "layers_ok cfg d" and tk: "top_k_ok d" and gs: "gumbel_sample_ok d"
    and cfg: "config_ok cfg"
    and cls: "\<forall>c. class_ids = Some c \<longrightarrow> length c = b"
    and steps: "steps \<noteq> []"
    and res: "for_loop (generate_round cfg d class_ids ehs starting_temperature thres timesteps
                guidance_scale noise_schedule) steps
                (init_input_ids cfg b input_ids, replicate b (replicate (num_vq_tokens cfg) 0)) g
              = (Inr st', g')"
  shows "\<exists>x. fst st' = Some x \<and> grid_shape b (num_vq_tokens cfg) x \<and> in_codebook cfg x"
proof -
  let ?P = "\<lambda>st. \<exists>x. fst st = Some x \<and> grid_shape b (num_vq_tokens cfg) x
                    \<and> codebook_or_mask cfg x \<and> grid_shape b (num_vq_tokens cfg) (snd st)"
  let ?Q = "\<lambda>st. \<exists>x. fst st = Some x \<and> grid_shape b (num_vq_tokens cfg) x
                    \<and> in_codebook cfg x \<and> grid_shape b (num_vq_tokens cfg) (snd st)"
  let ?body = "generate_round cfg d class_ids ehs starting_temperature thres timesteps
                 guidance_scale noise_schedule"
  let ?st0 = "(init_input_ids cfg b input_ids,
               replicate b (replicate (num_vq_tokens cfg) (0::real)))"
  from steps obtain i js where st: "steps = i # js" by (cases steps) auto
  have some: "input_ids \<noteq> None"
  proof
    assume "input_ids = None"
    then have "fst ?st0 = None" by (simp add: init_input_ids_def)
    then have "\<exists>e. ?body i ?st0 g = (Inl e, g)"
      by (auto simp add: generate_round_def Let_def)
    with res st show False by auto
  qed
  then have p0: "?P ?st0"
    by (auto simp add: init_input_ids_def grid_shape_replicate all_mask_codebook_or_mask)
  have step: "?Q s'" if "?P s" "?body i s g = (Inr s', g')" for i s g s' g'
  proof -
    from that(1) obtain x where x: "fst s = Some x"
      "grid_shape b (num_vq_tokens cfg) x" "codebook_or_mask cfg x"
      "grid_shape b (num_vq_tokens cfg) (snd s)" by blast
    show ?thesis
      using generate_round_inv [OF net tk gs cfg cls x that(2)] by auto
  qed
  have weaken: "?P s" if "?Q s" for s
    using that in_codebook_imp_or_mask by blast
  have "?Q st'"
  proof (rule for_loop_post [where P = ?P and Q = ?Q and body = ?body, OF res steps p0])
    show "?Q s'" if "?P s" "?body i s g = (Inr s', g')" for i s g s' g'
      using step [OF that] .
    show "?P s" if "?Q s" for s
      using weaken [OF that] .
  qed
  then show ?thesis by blast
qed


lemma shifted_class_length:
  assumes "batch_size_of h class_ids ehs = Inr b"
  shows "\<forall>c. map_option (shift_class_ids cfg class_ids h) class_ids = Some c \<longrightarrow> length c = b"
  using assms by (auto simp add: batch_size_of_def shift_class_ids_def split: option.splits)

lemma generate2_result:
  assumes cfg: "config_ok cfg" and net: "layers_ok cfg d" and mul: "multinomial_ok d"
    and msk: "mask_by_random_topk_ok d" and ts: "1 \<le> timesteps"
    and res: "generate2 cfg d input_ids class_ids ehs temperature timesteps guidance_scale
                noise_schedule generator h g = (Inr grid, h', g')"
  shows "\<exists>b. batch_size_of h class_ids ehs = Inr b
           \<and> grid_shape b (num_vq_tokens cfg) grid \<and> in_codebook cfg grid"
proof -
  from res obtain b where b: "batch_size_of h class_ids ehs = Inr b"
    by (auto simp add: generate2_def split: sum.splits)
  let ?cls = "map_option (shift_class_ids cfg class_ids h) class_ids"
  from res b obtain st where
    loop: "generate2_rounds cfg d input_ids ?cls ehs temperature timesteps guidance_scale
             noise_schedule b (py_range timesteps) g = (Inr st, g')"
    and grid: "cur_sampled_ids st = Some grid"
    by (auto simp add: generate2_def Let_def split: sum.splits prod.splits option.splits)
  from generate2_rounds_post [OF net mul msk cfg shifted_class_length [OF b]
      py_range_nonempty [OF ts] loop] grid b
  show ?thesis by auto
qed

lemma generate_result:
  assumes cfg: "config_ok cfg" and net: "layers_ok cfg d" and tk: "top_k_ok d"
    and gs: "gumbel_sample_ok d" and ts: "1 \<le> timesteps"
    and res: "generate cfg d input_ids class_ids ehs temperature topk_filter_thres timesteps
                guidance_scale noise_schedule h g = (Inr r, h', g')"
  shows "\<exists>b grid. batch_size_of h class_ids ehs = Inr b \<and> r = Some grid
           \<and> grid_shape b (num_vq_tokens cfg) grid \<and> in_codebook cfg grid"
proof -
  from res obtain b where b: "batch_size_of h class_ids ehs = Inr b"
    by (auto simp add: generate_def split: sum.splits)
  let ?cls = "map_option (shift_class_ids cfg class_ids h) class_ids"
  from res b ts obtain st where
    loop: "for_loop (generate_round cfg d ?cls ehs temperature topk_filter_thres timesteps
             guidance_scale noise_schedule)
             (zip (linspace01 (nat timesteps)) (reversed_range (nat timesteps)))
             (init_input_ids cfg b input_ids, replicate b (replicate (num_vq_tokens cfg) 0)) g
           = (Inr st, g')"
    and r: "r = fst st"
    by (auto simp add: generate_def Let_def split: sum.splits prod.splits if_splits)
  from generate_loop_post [OF net tk gs cfg shifted_class_length [OF b]
      schedule_zip_nonempty [OF ts] loop] r b
  show ?thesis by auto
qed

section \<open>The small instance meets the contracts\<close>

lemma tiny_config_ok: "config_ok tiny_config"
  by (simp add: config_ok_def tiny_config_def)

lemma tiny_layers_ok: "layers_ok tiny_config tiny_deps"
  by (simp add: layers_ok_def logits_shape_def grid_shape_def tiny_deps_def stub_deps_def
        tiny_config_def)

lemma tiny_multinomial_ok: "multinomial_ok tiny_deps"
  by (simp add: multinomial_ok_def tiny_fields stub_multinomial_def)

lemma tiny_top_k_ok: "top_k_ok tiny_deps"
  by (simp add: top_k_ok_def tiny_fields)

lemma tiny_gumbel_sample_ok: "gumbel_sample_ok tiny_deps"
  by (auto simp add: gumbel_sample_ok_def tiny_fields stub_gumbel_sample_def
        logits_shape_def grid_shape_def)

lemma mask_lowest_length: "length (mask_lowest k ps) = length ps"
  by (induction ps arbitrary: k) simp_all

lemma tiny_mask_by_random_topk_ok: "mask_by_random_topk_ok tiny_deps"
  by (auto simp add: mask_by_random_topk_ok_def tiny_fields stub_mask_by_random_topk_def
        grid_shape_nth mask_lowest_length)

lemma tiny_scores:
  "replicate (num_vq_tokens tiny_config) (0::real) = [0, 0]"
  by (simp add: tiny_fields eval_nat_numeral)


lemma tiny_schedule_two:
  "zip (linspace01 2) (reversed_range 2) = [(0, 1), (1, 0)]"
  by (simp add: linspace01_def reversed_range_def eval_nat_numeral upt_rec)

lemmas round1_eval = generate_round_def generate_update_def tiny_logits softmax_zeros tiny_fields
  eq_mask_def where2_def where_row_def gather_probs_def scatter_row_def py_int_def
  stub_gumbel_sample_def linear_schedule_def Let_def prepend_class_def
  numeral_2_eq_2 [symmetric]

lemma tiny_generate_round0:
  "generate_round tiny_config tiny_deps None (Some [[[1]]]) 1 (9 / 10) 2 0 linear_schedule
     (0, 1) (Some [[3, 3]], [[0, 0]]) 0
   = (Inr (Some [[0, 0]], [[1 / 2, 1 / 2]]), 1)"
  by (simp add: round1_eval upt_rec)

lemma tiny_generate_round1:
  "generate_round tiny_config tiny_deps None (Some [[[1]]]) 1 (9 / 10) 2 0 linear_schedule
     (1, 0) (Some [[0, 0]], [[1 / 2, 1 / 2]]) (Suc 0)
   = (Inr (Some [[1, 0]], [[1 / 2, 1 / 2]]), 2)"
  by (simp add: round1_eval upt_rec)

lemma tiny_generate_run:
  "generate tiny_config tiny_deps (Some []) None (Some [[[1]]]) 1 (9 / 10) 2 0 linear_schedule
     (\<lambda>a. []) 0 = (Inr (Some [[1, 0]]), (\<lambda>a. []), 2)"
  by (simp add: generate_def batch_size_of_def shift_class_ids_def tiny_init tiny_scores
        tiny_schedule_two tiny_generate_round0 tiny_generate_round1 Let_def)

lemma tiny_generate2_run:
  "generate2 tiny_config tiny_deps (Some []) None (Some [[[1]]]) 1 3 0 linear_schedule None
     (\<lambda>a. []) 0 = (Inr [[0, 0]], (\<lambda>a. []), 6)"
  by (simp add: generate2_def batch_size_of_def shift_class_ids_def generate2_rounds_def
        py_range_eval tiny_init tiny_round0 tiny_round1 tiny_round2)








section \<open>Terminal completeness and class-token stripping\<close>

text \<open>
  Claim C1. For a configuration whose vocabulary holds the codebook and the mask token
  above it, a network that returns \<^verbatim>\<open>vocab_size\<close> channels per position and samplers that
  return channel indices, every call of \<^verbatim>\<open>generate2\<close> or \<^verbatim>\<open>generate\<close> with
  \<^verbatim>\<open>timesteps >= 1\<close> that returns (any conditioning, any guidance scale, any schedule)
  returns a grid in which every value is a codebook index in \<open>[0, codebook_size)\<close> and no
  position holds the mask token.
\<close>

theorem decode_returns_codebook_ids:
  assumes "config_ok cfg" and "layers_ok cfg d" and "1 \<le> timesteps"
  shows "(multinomial_ok d \<and> mask_by_random_topk_ok d
          \<and> generate2 cfg d input_ids class_ids ehs temperature timesteps guidance_scale
              noise_schedule generator h g = (Inr grid, h', g')
          \<longrightarrow> in_codebook cfg grid \<and> mask_free cfg grid)
       \<and> (top_k_ok d \<and> gumbel_sample_ok d
          \<and> generate cfg d input_ids class_ids ehs temperature topk_filter_thres timesteps
              guidance_scale noise_schedule h g = (Inr r, h'', g'')
          \<longrightarrow> (\<exists>grid2. r = Some grid2 \<and> in_codebook cfg grid2 \<and> mask_free cfg grid2))"
proof (intro conjI impI; elim conjE)
  assume mul: "multinomial_ok d" and msk: "mask_by_random_topk_ok d"
    and res: "generate2 cfg d input_ids class_ids ehs temperature timesteps guidance_scale
                 noise_schedule generator h g = (Inr grid, h', g')"
  from generate2_result [OF assms(1,2) mul msk assms(3) res]
  show "in_codebook cfg grid" by blast
  then show "mask_free cfg grid"
    using in_codebook_mask_free [OF assms(1)] by blast
next
  assume tk: "top_k_ok d" and gs: "gumbel_sample_ok d"
    and res: "generate cfg d input_ids class_ids ehs temperature topk_filter_thres timesteps
                 guidance_scale noise_schedule h g = (Inr r, h'', g'')"
  from generate_result [OF assms(1,2) tk gs assms(3) res]
  show "\<exists>grid2. r = Some grid2 \<and> in_codebook cfg grid2 \<and> mask_free cfg grid2"
    using in_codebook_mask_free [OF assms(1)] by blast
qed

theorem decode_returns_codebook_ids_witness:
  "generate2 tiny_config tiny_deps (Some []) None (Some [[[1]]]) 1 3 0 linear_schedule None
      (\<lambda>a. []) 0 = (Inr [[0, 0]], (\<lambda>a. []), 6)
   \<and> in_codebook tiny_config [[0, 0]] \<and> mask_free tiny_config [[0, 0]]
   \<and> generate tiny_config tiny_deps (Some []) None (Some [[[1]]]) 1 (9 / 10) 2 0
      linear_schedule (\<lambda>a. []) 0 = (Inr (Some [[1, 0]]), (\<lambda>a. []), 2)
   \<and> in_codebook tiny_config [[1, 0]] \<and> mask_free tiny_config [[1, 0]]"
proof -
  have t3: "(1::int) \<le> 3" and t2: "(1::int) \<le> 2" by simp_all
  note a = decode_returns_codebook_ids [OF tiny_config_ok tiny_layers_ok t3,
      where input_ids = "Some []" and class_ids = None and ehs = "Some [[[1]]]"
        and temperature = 1 and guidance_scale = 0 and noise_schedule = linear_schedule
        and generator = None and h = "\<lambda>a. []" and g = 0 and grid = "[[0, 0]]"
        and h' = "\<lambda>a. []" and g' = 6, THEN conjunct1]
  note b = decode_returns_codebook_ids [OF tiny_config_ok tiny_layers_ok t2,
      where input_ids = "Some []" and class_ids = None and ehs = "Some [[[1]]]"
        and temperature = 1 and topk_filter_thres = "9 / 10" and guidance_scale = 0
        and noise_schedule = linear_schedule and h = "\<lambda>a. []" and g = 0
        and r = "Some [[1, 0]]" and h'' = "\<lambda>a. []" and g'' = 2, THEN conjunct2]
  show ?thesis
    using a b tiny_multinomial_ok tiny_mask_by_random_topk_ok tiny_top_k_ok
      tiny_gumbel_sample_ok tiny_generate2_run tiny_generate_run
    by simp
qed




end
